theory Spec2Isabelle
  imports Complex_Main
begin

section \<open>Green Button feed converter: parser and CSV exporter\<close>

text \<open>
  A shallow embedding of the two classes of the converter: \<open>GreenButtonParser\<close>
  (\<open>parseEntry\<close>, \<open>buildRelationships\<close>, \<open>toFlatData\<close> and the resource
  parsers) and \<open>CSVExporter\<close> (\<open>convertToCSV\<close>, \<open>needsQuoting\<close>,
  \<open>generatePreview\<close>, \<open>validateData\<close>).

  Conventions of the model.
  \<^item> A JavaScript string is a \<open>string\<close>; a character stands for one code unit below 256.
  \<^item> \<open>null\<close> and \<open>undefined\<close> are \<open>None\<close>.
  \<^item> A number that \<open>parseInt\<close> produced is a \<open>jsint\<close>: an integer or
    \<open>NaN\<close>. Doubles are idealised as exact numbers: integers are unbounded, products
    with a power of ten are rationals. The source computes with doubles, and the two
    agree where the double arithmetic is exact: for integers of magnitude at most
    \<open>2^53\<close>, for their products with a power of ten \<open>10^p\<close>, \<open>0 \<le> p\<close>, of
    magnitude at most \<open>2^53\<close>, and for \<open>toFixed(2)\<close> of such a product divided by
    100 while the product is below \<open>100 * 2^46\<close> in magnitude. Outside these bounds
    (a negative power of ten, a larger magnitude) the source rounds and the model does
    not; the statements about derived fields stay within the bounds.
  \<^item> A \<open>Map\<close> is an association list in insertion order with distinct keys. A plain
    object used as a dictionary is the association list of its own properties; the
    object \<open>links\<close> is read at a key that the document chooses, so there the names
    that every object inherits (\<open>inheritedNames\<close>) are part of the model. A row of
    the flat table is read at its own columns only.
  \<^item> An exception is a value \<open>Inl e\<close> of a sum type.
\<close>

subsection \<open>Strings\<close>

fun startsWith :: "string \<Rightarrow> string \<Rightarrow> bool" where
  "startsWith s [] = True"
| "startsWith [] (p # ps) = False"
| "startsWith (c # cs) (p # ps) = (c = p \<and> startsWith cs ps)"

definition endsWith :: "string \<Rightarrow> string \<Rightarrow> bool" where
  "endsWith s p = startsWith (rev s) (rev p)"

text \<open>\<open>s.includes(sub)\<close>: \<open>sub\<close> occurs in \<open>s\<close> as a contiguous substring.\<close>

fun includesStr :: "string \<Rightarrow> string \<Rightarrow> bool" where
  "includesStr [] sub = (sub = [])"
| "includesStr (c # cs) sub = (startsWith (c # cs) sub \<or> includesStr cs sub)"

text \<open>\<open>xs.join(sep)\<close> on an array of strings.\<close>

fun join :: "string list \<Rightarrow> string \<Rightarrow> string" where
  "join [] sep = []"
| "join [x] sep = x"
| "join (x # y # ys) sep = x @ sep @ join (y # ys) sep"

text \<open>
  The white space that \<open>trim\<close> and \<open>parseInt\<close> strip: tab, line feed, vertical tab,
  form feed, carriage return, space and no-break space (the code units below 256 of
  ECMAScript's WhiteSpace and LineTerminator).
\<close>

definition isWhiteSpace :: "char \<Rightarrow> bool" where
  "isWhiteSpace c = (c \<in> set [CHR 0x09, CHR 0x0A, CHR 0x0B, CHR 0x0C, CHR 0x0D, CHR 0x20, CHR 0xA0])"

definition trim :: "string \<Rightarrow> string" where
  "trim s = rev (dropWhile isWhiteSpace (rev (dropWhile isWhiteSpace s)))"

subsection \<open>Errors\<close>

text \<open>
  \<open>Error msg\<close> is \<open>new Error(msg)\<close> thrown by the source; \<open>RangeError\<close> is what
  \<open>Date.prototype.toISOString\<close> throws on an invalid date, \<open>TypeError\<close> what a
  call of something that is not a function throws. \<open>message e\<close> is \<open>e.message\<close>.
\<close>

datatype error = Error string | RangeError string | TypeError string

fun message :: "error \<Rightarrow> string" where
  "message (Error msg) = msg"
| "message (RangeError msg) = msg"
| "message (TypeError msg) = msg"

subsection \<open>CSVExporter\<close>

text \<open>
  A row is an object: its own keys in insertion order, each with a value; \<open>None\<close> is a
  \<open>null\<close> or \<open>undefined\<close> value. \<open>row[header]\<close> of a missing key is \<open>undefined\<close>.
\<close>

type_synonym 'v row = "(string \<times> 'v option) list"

definition Object_keys :: "'v row \<Rightarrow> string list" where
  "Object_keys row = map fst row"

definition getProp :: "'v row \<Rightarrow> string \<Rightarrow> 'v option" where
  "getProp row header = (case map_of row header of None \<Rightarrow> None | Some v \<Rightarrow> v)"

definition defaultHeaders :: "string list" where
  "defaultHeaders =
    [''usage_point_id'', ''meter_reading_id'', ''interval_block_id'', ''reading_type_id'',
     ''service_category'', ''commodity'', ''uom'', ''power_multiplier'', ''start_time'',
     ''duration'', ''end_time'', ''value'', ''cost'', ''quality_flags'', ''interval_length'',
     ''calculated_value'', ''calculated_cost'']"

text \<open>\<open>needsQuoting(value)\<close>, lines 105-112 of csvExporter.js.\<close>

definition needsQuoting :: "string \<Rightarrow> bool" where
  "needsQuoting v =
    (includesStr v '','' \<or> includesStr v [CHR 0x22] \<or> includesStr v [CHR 0x0A] \<or>
     includesStr v [CHR 0x0D] \<or> startsWith v '' '' \<or> endsWith v '' '')"

text \<open>\<open>value.replace(/"/g, '""')\<close>: every double quote is doubled.\<close>

fun doubleQuotes :: "string \<Rightarrow> string" where
  "doubleQuotes [] = []"
| "doubleQuotes (c # cs) = (if c = CHR 0x22 then CHR 0x22 # CHR 0x22 # doubleQuotes cs
                           else c # doubleQuotes cs)"

text \<open>
  The quoting step that \<open>convertToCSV\<close> (lines 63-70) and \<open>formatCSVRow\<close> (lines 92-96)
  both apply to a stringified value.
\<close>

definition quoteField :: "string \<Rightarrow> string" where
  "quoteField v = (if needsQuoting v then [CHR 0x22] @ doubleQuotes v @ [CHR 0x22] else v)"

text \<open>
  \<open>formatCSVRow(values)\<close>. The parameter \<open>toStr\<close> is JavaScript's \<open>String(value)\<close>
  on the non-null values of the cells; every statement below holds for any such function.
\<close>

definition formatCSVRow :: "('v \<Rightarrow> string) \<Rightarrow> 'v option list \<Rightarrow> string" where
  "formatCSVRow toStr values =
    join (map (\<lambda>v. case v of None \<Rightarrow> [] | Some x \<Rightarrow> quoteField (toStr x)) values) '',''"

text \<open>
  \<open>convertToCSV(data, headers = null)\<close>. \<open>data\<close> is \<open>null\<close> or an array of row
  objects. \<open>headers || Object.keys(data[0]) || this.defaultHeaders\<close>: an array is truthy
  even when it is empty, so the third alternative is never taken. The \<open>for\<close> loop over
  \<open>data\<close> pushes one line per row.
\<close>

definition csvLine :: "('v \<Rightarrow> string) \<Rightarrow> string list \<Rightarrow> 'v row \<Rightarrow> string" where
  "csvLine toStr csvHeaders row =
    join (map (\<lambda>header. case getProp row header of None \<Rightarrow> []
                                | Some x \<Rightarrow> quoteField (toStr x)) csvHeaders) '',''"

fun pushLines :: "('v \<Rightarrow> string) \<Rightarrow> string list \<Rightarrow> 'v row list \<Rightarrow> string list \<Rightarrow> string list" where
  "pushLines toStr csvHeaders [] csvRows = csvRows"
| "pushLines toStr csvHeaders (row # data) csvRows =
     pushLines toStr csvHeaders data (csvRows @ [csvLine toStr csvHeaders row])"

definition convertToCSV :: "('v \<Rightarrow> string) \<Rightarrow> 'v row list option \<Rightarrow> string list option \<Rightarrow> error + string" where
  "convertToCSV toStr data headers =
    (case data of
       None \<Rightarrow> Inl (Error ''No data provided for CSV conversion'')
     | Some [] \<Rightarrow> Inl (Error ''No data provided for CSV conversion'')
     | Some (row0 # rest) \<Rightarrow>
         let csvHeaders = (case headers of Some h \<Rightarrow> h | None \<Rightarrow> Object_keys row0);
             csvRows = pushLines toStr csvHeaders (row0 # rest)
                         [formatCSVRow (\<lambda>h. h) (map Some csvHeaders)]
         in Inr (join csvRows [CHR 0x0A]))"

text \<open>
  Decimal digits of a natural number (\<open>String(n)\<close> for a non-negative integer) and
  \<open>x.toFixed(f)\<close> after ECMAScript's Number.prototype.toFixed: \<open>n\<close> is the integer
  nearest to \<open>|x| * 10^f\<close>, the larger one on a tie; its digits are padded with zeros
  to more than \<open>f\<close> characters and the point goes before the last \<open>f\<close>. For
  \<open>|x| \<ge> 10^21\<close> JavaScript prints exponential notation instead; that range is outside
  the model (a double is far from exact there). The source calls \<open>toFixed\<close> on a
  double; here the argument is the exact number, which is that double within the bounds
  of the conventions.
\<close>

definition digitChar :: "nat \<Rightarrow> char" where
  "digitChar d = ''0123456789'' ! (d mod 10)"

fun showNat :: "nat \<Rightarrow> string" where
  "showNat n = (if n < 10 then [digitChar n] else showNat (n div 10) @ [digitChar (n mod 10)])"

declare showNat.simps [simp del]

definition toFixed :: "nat \<Rightarrow> rat \<Rightarrow> string" where
  "toFixed f x =
    (let s = (if x < 0 then ''-'' else []);
         n = nat \<lfloor>\<bar>x\<bar> * 10 ^ f + 1 / 2\<rfloor>;
         m = showNat n;
         m' = (if length m \<le> f then replicate (f + 1 - length m) CHR ''0'' @ m else m)
     in if f = 0 then s @ m
        else s @ take (length m' - f) m' @ ''.'' @ drop (length m' - f) m')"

text \<open>
  \<open>validateData(data)\<close>. The argument is any JavaScript value: \<open>Falsy\<close> is \<open>null\<close>,
  \<open>undefined\<close> or another falsy value, \<open>NotArray\<close> a truthy value that is not an array,
  \<open>Array\<close> an array whose elements are objects or not (\<open>NotObject\<close>: \<open>null\<close> or a
  primitive). The percentages are computed exactly (the source computes them in doubles).
\<close>

datatype 'v element = NotObject | Object "'v row"

datatype 'v input = Falsy | NotArray | Array "'v element list"

record stats =
  totalRows :: nat
  totalColumns :: nat
  emptyValues :: nat
  nullValues :: nat

record validation =
  isValid :: bool
  errors :: "string list"
  warnings :: "string list"
  stats :: stats

definition initialResult :: validation where
  "initialResult =
    \<lparr>isValid = True, errors = [], warnings = [],
     stats = \<lparr>totalRows = 0, totalColumns = 0, emptyValues = 0, nullValues = 0\<rparr>\<rparr>"

text \<open>The inner loop over the headers: counts of (empty, null) values of one row.\<close>

fun countValues :: "('v \<Rightarrow> string) \<Rightarrow> 'v row \<Rightarrow> string list \<Rightarrow> nat \<times> nat \<Rightarrow> nat \<times> nat" where
  "countValues toStr row [] (emptyCount, nullCount) = (emptyCount, nullCount)"
| "countValues toStr row (header # headers) (emptyCount, nullCount) =
     (case getProp row header of
        None \<Rightarrow> countValues toStr row headers (emptyCount, nullCount + 1)
      | Some v \<Rightarrow>
          if trim (toStr v) = [] then countValues toStr row headers (emptyCount + 1, nullCount)
          else countValues toStr row headers (emptyCount, nullCount))"

text \<open>The loop \<open>for (let i = 0; i < data.length; i++)\<close>, from index \<open>i\<close> on.\<close>

fun scanRows :: "('v \<Rightarrow> string) \<Rightarrow> string list \<Rightarrow> nat \<Rightarrow> 'v element list \<Rightarrow>
    string list \<times> nat \<times> nat \<Rightarrow> string list \<times> nat \<times> nat" where
  "scanRows toStr headers i [] acc = acc"
| "scanRows toStr headers i (NotObject # data) (warns, emptyCount, nullCount) =
     scanRows toStr headers (i + 1) data
       (warns @ [''Row '' @ showNat (i + 1) @ '' is not an object''], emptyCount, nullCount)"
| "scanRows toStr headers i (Object row # data) (warns, emptyCount, nullCount) =
     (let rowHeaders = Object_keys row;
          warns' = (if length rowHeaders \<noteq> length headers
                       then warns @ [''Row '' @ showNat (i + 1) @ '' has '' @
                              showNat (length rowHeaders) @ '' columns, expected '' @
                              showNat (length headers)]
                       else warns);
          (emptyCount', nullCount') = countValues toStr row headers (emptyCount, nullCount)
      in scanRows toStr headers (i + 1) data (warns', emptyCount', nullCount'))"

definition validateData :: "('v \<Rightarrow> string) \<Rightarrow> 'v input \<Rightarrow> validation" where
  "validateData toStr data =
    (case data of
       Falsy \<Rightarrow> initialResult\<lparr>isValid := False, errors := [''No data provided'']\<rparr>
     | NotArray \<Rightarrow> initialResult\<lparr>isValid := False, errors := [''Data must be an array'']\<rparr>
     | Array [] \<Rightarrow> initialResult\<lparr>isValid := False, errors := [''Data array is empty'']\<rparr>
     | Array (NotObject # rest) \<Rightarrow>
         initialResult\<lparr>isValid := False, errors := [''Data rows must be objects''],
           stats := (stats initialResult)\<lparr>totalRows := Suc (length rest)\<rparr>\<rparr>
     | Array (Object firstRow # rest) \<Rightarrow>
         (let headers = Object_keys firstRow;
              rows = Suc (length rest);
              (warns1, emptyCount, nullCount) =
                 scanRows toStr headers 0 (Object firstRow # rest) ([], 0, 0);
              totalValues = rows * length headers;
              emptyPercentage = (of_nat emptyCount / of_nat totalValues) * 100;
              nullPercentage = (of_nat nullCount / of_nat totalValues) * 100;
              warns2 = (if totalValues \<noteq> 0 \<and> emptyPercentage > 10
                           then warns1 @ [toFixed 1 emptyPercentage @ ''% of values are empty'']
                           else warns1);
              warns3 = (if totalValues \<noteq> 0 \<and> nullPercentage > 10
                           then warns2 @ [toFixed 1 nullPercentage @ ''% of values are null'']
                           else warns2)
          in initialResult\<lparr>warnings := warns3,
               stats := \<lparr>totalRows = rows, totalColumns = length headers,
                          emptyValues = emptyCount, nullValues = nullCount\<rparr>\<rparr>))"

text \<open>
  Arrays of rows live in a store, so that a statement can tell the array a function
  received from one it created: \<open>cells h a\<close> is the content of the array at address
  \<open>a\<close>, and the addresses below \<open>used h\<close> are allocated.
\<close>

record 'a heap =
  cells :: "nat \<Rightarrow> 'a list"
  used :: nat

definition alloc :: "'a list \<Rightarrow> 'a heap \<Rightarrow> nat \<times> 'a heap" where
  "alloc xs h = (used h, h\<lparr>cells := (cells h)(used h := xs), used := Suc (used h)\<rparr>)"

text \<open>
  \<open>xs.slice(start, end)\<close> with integer arguments: a negative index counts from the
  end of the array, and both are clamped to the array.
\<close>

definition relativeIndex :: "int \<Rightarrow> int \<Rightarrow> int" where
  "relativeIndex len k = (if k < 0 then max (len + k) 0 else min k len)"

definition slice :: "'a list \<Rightarrow> int \<Rightarrow> int \<Rightarrow> 'a list" where
  "slice xs start end_ix =
    (let len = int (length xs);
         k = relativeIndex len start;
         final = relativeIndex len end_ix
     in take (nat (final - k)) (drop (nat k) xs))"

text \<open>
  \<open>generatePreview(data, maxRows = 10)\<close>: \<open>data\<close> is \<open>null\<close> or a reference to an
  array of rows, \<open>maxRows\<close> an integer or left out. The array literal \<open>[]\<close> and the
  result of \<open>slice\<close> are new arrays.
\<close>

record preview =
  previewHeaders :: "string list"
  previewRows :: nat
  previewTotalRows :: nat
  isPreview :: bool

definition generatePreview :: "'v row heap \<Rightarrow> nat option \<Rightarrow> int option \<Rightarrow> preview \<times> 'v row heap" where
  "generatePreview h data maxRowsArg =
    (let maxRows = (case maxRowsArg of None \<Rightarrow> 10 | Some m \<Rightarrow> m);
         emptyPreview = (let (r, h') = alloc [] h
                         in (\<lparr>previewHeaders = [], previewRows = r, previewTotalRows = 0,
                              isPreview = False\<rparr>, h'))
     in case data of
          None \<Rightarrow> emptyPreview
        | Some a \<Rightarrow>
            (case cells h a of
               [] \<Rightarrow> emptyPreview
             | row0 # rest \<Rightarrow>
                 let (r, h') = alloc (slice (row0 # rest) 0 maxRows) h
                 in (\<lparr>previewHeaders = Object_keys row0, previewRows = r,
                      previewTotalRows = length (row0 # rest),
                      isPreview = (int (length (row0 # rest)) > maxRows)\<rparr>, h')))"

text \<open>
  A reader of one CSV record after RFC 4180, for checking what the exporter writes: a
  field is either quoted (a double quote, then any characters with every double quote
  doubled, then a double quote) or plain (no comma, double quote, carriage return or line
  feed); fields are separated by commas. It is not part of the exporter.
\<close>

datatype csvState = FieldStart | InPlain | InQuoted | QuoteSeen

fun csvStep :: "csvState \<times> string \<times> string list \<Rightarrow> char \<Rightarrow> (csvState \<times> string \<times> string list) option" where
  "csvStep (FieldStart, fld, out) c =
     (if c = CHR 0x22 then Some (InQuoted, [], out)
      else if c = CHR '','' then Some (FieldStart, [], out @ [[]])
      else if c = CHR 0x0A \<or> c = CHR 0x0D then None
      else Some (InPlain, [c], out))"
| "csvStep (InPlain, fld, out) c =
     (if c = CHR '','' then Some (FieldStart, [], out @ [fld])
      else if c = CHR 0x22 \<or> c = CHR 0x0A \<or> c = CHR 0x0D then None
      else Some (InPlain, fld @ [c], out))"
| "csvStep (InQuoted, fld, out) c =
     (if c = CHR 0x22 then Some (QuoteSeen, fld, out)
      else Some (InQuoted, fld @ [c], out))"
| "csvStep (QuoteSeen, fld, out) c =
     (if c = CHR 0x22 then Some (InQuoted, fld @ [CHR 0x22], out)
      else if c = CHR '','' then Some (FieldStart, [], out @ [fld])
      else None)"

fun csvRun :: "csvState \<times> string \<times> string list \<Rightarrow> string \<Rightarrow> string list option" where
  "csvRun (st, fld, out) [] = (if st = InQuoted then None else Some (out @ [fld]))"
| "csvRun state (c # cs) = (case csvStep state c of None \<Rightarrow> None | Some state' \<Rightarrow> csvRun state' cs)"

definition csvSplit :: "string \<Rightarrow> string list option" where
  "csvSplit line = csvRun (FieldStart, [], []) line"

text \<open>A store with one array of three rows at address 0, for concrete instances.\<close>

definition exampleHeap :: "string row heap" where
  "exampleHeap =
    \<lparr>cells = (\<lambda>_. [])(0 := [[(''a'', Some ''1'')], [(''a'', Some ''2'')], [(''a'', Some ''3'')]]),
     used = 1\<rparr>"

subsection \<open>Numbers\<close>

text \<open>
  \<open>jsint\<close>: what \<open>parseInt\<close> returns. \<open>truthy\<close> is JavaScript's truthiness of a
  number or \<open>null\<close>: \<open>null\<close>, \<open>NaN\<close> and \<open>0\<close> are falsy. \<open>orNull x\<close> is
  \<open>x || null\<close>, \<open>orZero x\<close> is \<open>x || 0\<close>.
\<close>

datatype jsint = NaN | Num int

fun truthy :: "jsint option \<Rightarrow> bool" where
  "truthy None = False"
| "truthy (Some NaN) = False"
| "truthy (Some (Num n)) = (n \<noteq> 0)"

definition orNull :: "jsint \<Rightarrow> jsint option" where
  "orNull x = (if truthy (Some x) then Some x else None)"

definition orZero :: "jsint \<Rightarrow> jsint" where
  "orZero x = (if truthy (Some x) then x else Num 0)"

fun plusInt :: "jsint \<Rightarrow> jsint \<Rightarrow> jsint" where
  "plusInt (Num a) (Num b) = Num (a + b)"
| "plusInt a b = NaN"

text \<open>
  \<open>number\<close>: a product with a power of ten, a rational or \<open>NaN\<close>.
  \<open>pow10 p\<close> is \<open>Math.pow(10, p)\<close>, \<open>times v x\<close> is \<open>v * x\<close>, both in exact
  arithmetic: \<open>Math.pow(10, p)\<close> is that double for \<open>0 \<le> p \<le> 22\<close>, and a product
  of integers is that double while its magnitude is at most \<open>2^53\<close>.
\<close>

datatype number = NotANumber | Number rat

fun pow10 :: "jsint \<Rightarrow> number" where
  "pow10 NaN = NotANumber"
| "pow10 (Num p) = Number (10 powi p)"

fun times :: "jsint \<Rightarrow> number \<Rightarrow> number" where
  "times (Num v) (Number x) = Number (of_int v * x)"
| "times v x = NotANumber"

text \<open>
  \<open>parseInt(text)\<close> without a radix: leading white space is skipped, then an optional
  sign, then \<open>0x\<close> or \<open>0X\<close> selects radix 16, then the longest run of digits is read;
  no digit gives \<open>NaN\<close>. \<open>parseInt(null)\<close> reads the string \<open>null\<close>, which has no
  digit.
\<close>

definition digitOf :: "char \<Rightarrow> nat option" where
  "digitOf c =
    (let n = (of_char c :: nat)
     in if 48 \<le> n \<and> n \<le> 57 then Some (n - 48)
        else if 97 \<le> n \<and> n \<le> 122 then Some (n - 87)
        else if 65 \<le> n \<and> n \<le> 90 then Some (n - 55)
        else None)"

fun parseDigits :: "nat \<Rightarrow> string \<Rightarrow> int option \<Rightarrow> int option" where
  "parseDigits radix [] acc = acc"
| "parseDigits radix (c # cs) acc =
     (case digitOf c of
        None \<Rightarrow> acc
      | Some d \<Rightarrow>
          if d < radix
          then parseDigits radix cs
                 (Some ((case acc of None \<Rightarrow> 0 | Some a \<Rightarrow> a * int radix) + int d))
          else acc)"

definition parseInt :: "string option \<Rightarrow> jsint" where
  "parseInt text =
    (case text of
       None \<Rightarrow> NaN
     | Some s \<Rightarrow>
         let s1 = dropWhile isWhiteSpace s;
             negative = startsWith s1 ''-'';
             s2 = (if startsWith s1 ''-'' \<or> startsWith s1 ''+'' then drop 1 s1 else s1);
             hex = (startsWith s2 ''0x'' \<or> startsWith s2 ''0X'');
             s3 = (if hex then drop 2 s2 else s2)
         in case parseDigits (if hex then 16 else 10) s3 None of
              None \<Rightarrow> NaN
            | Some n \<Rightarrow> Num (if negative then - n else n))"

subsection \<open>Dates\<close>

text \<open>
  \<open>new Date(ms).toISOString()\<close> for an integer number of milliseconds since the epoch:
  the proleptic Gregorian date and the time of day in UTC, as
  \<open>YYYY-MM-DDTHH:mm:ss.sssZ\<close>; a year outside 0..9999 is written with a sign and six
  digits. A time value beyond 8.64e15 milliseconds is an invalid date, and
  \<open>toISOString\<close> throws a RangeError.
\<close>

definition pad :: "nat \<Rightarrow> nat \<Rightarrow> string" where
  "pad width n = replicate (width - length (showNat n)) CHR ''0'' @ showNat n"

definition civilFromDays :: "int \<Rightarrow> int \<times> nat \<times> nat" where
  "civilFromDays days =
    (let z = days + 719468;
         era = z div 146097;
         doe = z mod 146097;
         yoe = (doe - doe div 1460 + doe div 36524 - doe div 146096) div 365;
         doy = doe - (365 * yoe + yoe div 4 - yoe div 100);
         mp = (5 * doy + 2) div 153;
         d = doy - (153 * mp + 2) div 5 + 1;
         m = (if mp < 10 then mp + 3 else mp - 9);
         y = yoe + era * 400 + (if m \<le> 2 then 1 else 0)
     in (y, nat m, nat d))"

definition toISOString :: "int \<Rightarrow> error + string" where
  "toISOString ms =
    (if \<bar>ms\<bar> > 8640000000000000 then Inl (RangeError ''Invalid time value'')
     else
       let (y, m, d) = civilFromDays (ms div 86400000);
           t = ms mod 86400000;
           year = (if 0 \<le> y \<and> y \<le> 9999 then pad 4 (nat y)
                   else (if y < 0 then ''-'' else ''+'') @ pad 6 (nat \<bar>y\<bar>))
       in Inr (year @ ''-'' @ pad 2 m @ ''-'' @ pad 2 d @ ''T'' @
               pad 2 (nat (t div 3600000)) @ '':'' @ pad 2 (nat (t div 60000 mod 60)) @ '':'' @
               pad 2 (nat (t div 1000 mod 60)) @ ''.'' @ pad 3 (nat (t mod 1000)) @ ''Z''))"

text \<open>\<open>formatTimestamp(timestamp)\<close>, lines 373-376: a falsy timestamp gives \<open>null\<close>.\<close>

definition formatTimestamp :: "jsint option \<Rightarrow> error + string option" where
  "formatTimestamp timestamp =
    (case timestamp of
       Some (Num n) \<Rightarrow>
         if n = 0 then Inr None
         else (case toISOString (n * 1000) of Inl e \<Rightarrow> Inl e | Inr s \<Rightarrow> Inr (Some s))
     | _ \<Rightarrow> Inr None)"

subsection \<open>The document tree\<close>

text \<open>
  The tree that \<open>DOMParser\<close> returns: an element has a local name, attributes and child
  nodes; the other nodes are text. A type selector matches on the local name, whatever the
  namespace prefix; the selector \<open>espi\:X\<close> matches a local name that is literally
  \<open>espi:X\<close>. \<open>elements e\<close> is \<open>e\<close> and the elements below it in document order.
\<close>

datatype xml = Element string "(string \<times> string) list" "xml list" | Text string

fun elements :: "xml \<Rightarrow> xml list" where
  "elements (Text s) = []"
| "elements (Element name attrs nodes) = Element name attrs nodes # concat (map elements nodes)"

fun textContent :: "xml \<Rightarrow> string" where
  "textContent (Text s) = s"
| "textContent (Element name attrs nodes) = concat (map textContent nodes)"

fun descendants :: "xml \<Rightarrow> xml list" where
  "descendants (Text s) = []"
| "descendants (Element name attrs nodes) = concat (map elements nodes)"

fun hasName :: "string list \<Rightarrow> xml \<Rightarrow> bool" where
  "hasName names (Text s) = False"
| "hasName names (Element name attrs nodes) = (name \<in> set names)"

fun getAttribute :: "xml \<Rightarrow> string \<Rightarrow> string option" where
  "getAttribute (Text s) a = None"
| "getAttribute (Element name attrs nodes) a = map_of attrs a"

text \<open>
  \<open>parent.querySelector('A, B')\<close> and \<open>querySelectorAll\<close> for a list of type selectors,
  and \<open>parent.querySelector('*[a="v"]')\<close> for an attribute selector.
\<close>

definition querySelector :: "xml \<Rightarrow> string list \<Rightarrow> xml option" where
  "querySelector parent names = List.find (hasName names) (descendants parent)"

definition querySelectorAll :: "xml \<Rightarrow> string list \<Rightarrow> xml list" where
  "querySelectorAll parent names = filter (hasName names) (descendants parent)"

definition querySelectorAttr :: "xml \<Rightarrow> string \<Rightarrow> string \<Rightarrow> xml option" where
  "querySelectorAttr parent a v = List.find (\<lambda>e. getAttribute e a = Some v) (descendants parent)"

text \<open>\<open>x || y\<close> on two values that are an object or \<open>null\<close>.\<close>

fun orElse :: "'a option \<Rightarrow> 'a option \<Rightarrow> 'a option" where
  "orElse (Some x) y = Some x"
| "orElse None y = y"

text \<open>\<open>getTextContent(parent, tagName)\<close>, lines 362-368.\<close>

definition getTextContent :: "xml \<Rightarrow> string \<Rightarrow> string option" where
  "getTextContent parent tagName =
    (case orElse (querySelector parent [tagName])
            (orElse (querySelector parent [''espi:'' @ tagName])
               (querySelectorAttr parent ''localName'' tagName)) of
       None \<Rightarrow> None
     | Some element \<Rightarrow> Some (trim (textContent element)))"

text \<open>
  Truthiness of a string or \<open>null\<close>: \<open>null\<close> and the empty string are falsy.
  \<open>strOrNull s\<close> is \<open>s || null\<close>.
\<close>

fun nonEmpty :: "string option \<Rightarrow> bool" where
  "nonEmpty None = False"
| "nonEmpty (Some s) = (s \<noteq> [])"

definition strOrNull :: "string option \<Rightarrow> string option" where
  "strOrNull s = (if nonEmpty s then s else None)"

subsection \<open>The parsed document\<close>

text \<open>
  A \<open>Map\<close> in insertion order: \<open>mapSet\<close> replaces the value of a key in place or adds
  the key at the end. An entry id is the text of the entry's \<open>id\<close> element, or \<open>null\<close>.
\<close>

type_synonym ident = "string option"

fun mapSet :: "'k \<Rightarrow> 'v \<Rightarrow> ('k \<times> 'v) list \<Rightarrow> ('k \<times> 'v) list" where
  "mapSet k v [] = [(k, v)]"
| "mapSet k v ((k', v') # m) = (if k' = k then (k, v) # m else (k', v') # mapSet k v m)"

definition mapGet :: "('k \<times> 'v) list \<Rightarrow> 'k \<Rightarrow> 'v option" where
  "mapGet m k = map_of m k"

definition mapHas :: "('k \<times> 'v) list \<Rightarrow> 'k \<Rightarrow> bool" where
  "mapHas m k = (map_of m k \<noteq> None)"

definition mapKeys :: "('k \<times> 'v) list \<Rightarrow> 'k list" where
  "mapKeys m = map fst m"

text \<open>
  The records of the parsed document. Field names are the source's; where two objects
  share a name the field carries a prefix (\<open>up_id\<close>, \<open>mr_links\<close>, \<open>iv_start\<close>,
  \<open>ir_cost\<close>, \<open>rt_commodity\<close>, ...). \<open>Coded\<close> is the object
  \<open>{code, description}\<close> of a commodity or a unit of measure, \<open>Interval\<close> the object
  \<open>{duration, start}\<close>, and \<open>links\<close> the object \<open>{rel: [href, ...]}\<close>.
\<close>

type_synonym links = "(string \<times> string list) list"

record ServiceCategory =
  sc_kind :: jsint
  sc_description :: string

record Coded =
  code :: jsint
  description :: string

record UsagePoint =
  up_id :: ident
  up_serviceCategory :: "ServiceCategory option"
  up_links :: links
  up_description :: "string option"

record MeterReading =
  mr_id :: ident
  mr_links :: links

record ReadingType =
  rt_id :: ident
  accumulationBehaviour :: "jsint option"
  rt_commodity :: "Coded option"
  rt_currency :: "jsint option"
  dataQualifier :: "jsint option"
  flowDirection :: "jsint option"
  intervalLength :: "jsint option"
  rt_kind :: "jsint option"
  phase :: "jsint option"
  powerOfTenMultiplier :: jsint
  timeAttribute :: "jsint option"
  rt_uom :: "Coded option"

record Interval =
  iv_duration :: "jsint option"
  iv_start :: "jsint option"

record IntervalReading =
  ir_cost :: "jsint option"
  timePeriod :: "Interval option"
  ir_value :: "jsint option"
  qualityFlags :: "string option"

record IntervalBlock =
  ib_id :: ident
  interval :: "Interval option"
  intervalReadings :: "IntervalReading list"
  ib_links :: links

record LocalTimeParameters =
  ltp_id :: ident
  dstEndRule :: "string option"
  dstOffset :: "jsint option"
  dstStartRule :: "string option"
  tzOffset :: "jsint option"

record Consumption =
  oc_powerOfTenMultiplier :: jsint
  oc_uom :: "jsint option"
  oc_value :: "jsint option"

record UsageSummary =
  us_id :: ident
  billingPeriod :: "Interval option"
  billLastPeriod :: "jsint option"
  billToDate :: "jsint option"
  overallConsumptionLastPeriod :: "Consumption option"
  us_currency :: "jsint option"

record Metadata =
  feedId :: "string option"
  feedTitle :: "string option"
  updated :: "string option"
  totalEntries :: nat

record Relationships =
  usagePointToMeterReadings :: "(ident \<times> ident list) list"
  meterReadingToIntervalBlocks :: "(ident \<times> ident list) list"
  meterReadingToReadingTypes :: "(ident \<times> ident list) list"

record ParsedData =
  metadata :: Metadata
  usagePoints :: "(ident \<times> UsagePoint) list"
  meterReadings :: "(ident \<times> MeterReading) list"
  intervalBlocks :: "(ident \<times> IntervalBlock) list"
  readingTypes :: "(ident \<times> ReadingType) list"
  localTimeParameters :: "(ident \<times> LocalTimeParameters) list"
  usageSummaries :: "(ident \<times> UsageSummary) list"
  relationships :: Relationships

subsection \<open>GreenButtonParser: the resource parsers\<close>

definition COMMODITY_TYPES :: "(int \<times> string) list" where
  "COMMODITY_TYPES =
    [(0, ''Unknown''), (1, ''Electricity''), (2, ''Gas''), (3, ''Water''), (4, ''Time''),
     (5, ''Heat''), (6, ''Cooling''), (7, ''Carbon''), (8, ''Carbon dioxide''),
     (9, ''Nitrogen''), (10, ''Hydrogen''), (11, ''Compressed air'')]"

definition UOM_TYPES :: "(int \<times> string) list" where
  "UOM_TYPES =
    [(5, ''A''), (29, ''V''), (31, ''J''), (38, ''W''), (42, ''m'' @ [CHR 0xB3]), (72, ''Wh''),
     (73, ''kWh''), (106, ''Ah''), (119, ''ft'' @ [CHR 0xB3]), (122, ''gal''), (132, ''VAh''),
     (140, ''W''), (159, ''Wh''), (169, ''VAR''), (174, ''VAh'')]"

definition SERVICE_CATEGORIES :: "(int \<times> string) list" where
  "SERVICE_CATEGORIES =
    [(0, ''Electricity''), (1, ''Gas''), (2, ''Water''), (3, ''Time''), (4, ''Heat''),
     (5, ''Cooling'')]"

text \<open>\<open>TABLE[n] || 'Unknown'\<close> for a number \<open>n\<close>.\<close>

definition label :: "(int \<times> string) list \<Rightarrow> jsint \<Rightarrow> string" where
  "label table n =
    (case n of
       NaN \<Rightarrow> ''Unknown''
     | Num k \<Rightarrow> (case map_of table k of None \<Rightarrow> ''Unknown'' | Some d \<Rightarrow> d))"

text \<open>
  \<open>extractLinks(entry)\<close>, lines 160-176. \<open>links\<close> starts as the object \<open>{}\<close>, whose
  prototype is \<open>Object.prototype\<close>: \<open>links[rel]\<close> at a name in \<open>inheritedNames\<close> reads
  the inherited property, a function (at \<open>__proto__\<close> the prototype object), which is
  truthy. So line 168 creates no array for such a \<open>rel\<close>, and line 171 calls
  \<open>links[rel].push\<close>, which is \<open>undefined\<close>: a \<open>TypeError\<close> (the text of the message is
  the engine's, here that of V8). For any other \<open>rel\<close> the object has the property only
  when an earlier link stored an array there.
\<close>

definition inheritedNames :: "string list" where
  "inheritedNames =
    [''constructor'', ''__defineGetter__'', ''__defineSetter__'', ''hasOwnProperty'',
     ''__lookupGetter__'', ''__lookupSetter__'', ''isPrototypeOf'', ''propertyIsEnumerable'',
     ''toString'', ''valueOf'', ''__proto__'', ''toLocaleString'']"

fun addLinks :: "xml list \<Rightarrow> links \<Rightarrow> error + links" where
  "addLinks [] links = Inr links"
| "addLinks (link # linkElements) links =
     (let rel = getAttribute link ''rel'';
          href = getAttribute link ''href''
      in case (rel, href) of
           (Some r, Some h) \<Rightarrow>
             if r \<noteq> [] \<and> h \<noteq> []
             then (case map_of links r of
                     None \<Rightarrow>
                       if r \<in> set inheritedNames
                       then Inl (TypeError ''links[rel].push is not a function'')
                       else addLinks linkElements (links @ [(r, [h])])
                   | Some hs \<Rightarrow> addLinks linkElements (mapSet r (hs @ [h]) links))
             else addLinks linkElements links
         | _ \<Rightarrow> addLinks linkElements links)"

definition extractLinks :: "xml \<Rightarrow> error + links" where
  "extractLinks entry = addLinks (querySelectorAll entry [''link'']) []"

text \<open>\<open>parseUsagePoint\<close>, lines 181-195.\<close>

definition parseUsagePoint :: "xml \<Rightarrow> ident \<Rightarrow> links \<Rightarrow> UsagePoint" where
  "parseUsagePoint element entryId links =
    (let serviceCategory = querySelector element [''ServiceCategory'', ''espi:ServiceCategory''];
         serviceCategoryKind = (case serviceCategory of
                                  Some sc \<Rightarrow> getTextContent sc ''kind''
                                | None \<Rightarrow> None)
     in \<lparr>up_id = entryId,
         up_serviceCategory =
           (if nonEmpty serviceCategoryKind
            then Some \<lparr>sc_kind = parseInt serviceCategoryKind,
                       sc_description = label SERVICE_CATEGORIES (parseInt serviceCategoryKind)\<rparr>
            else None),
         up_links = links,
         up_description = strOrNull (getTextContent element ''description'')\<rparr>)"

text \<open>\<open>parseMeterReading\<close>, lines 200-206.\<close>

definition parseMeterReading :: "xml \<Rightarrow> ident \<Rightarrow> links \<Rightarrow> MeterReading" where
  "parseMeterReading element entryId links = \<lparr>mr_id = entryId, mr_links = links\<rparr>"

text \<open>\<open>parseReadingType\<close>, lines 211-236.\<close>

definition parseReadingType :: "xml \<Rightarrow> ident \<Rightarrow> ReadingType" where
  "parseReadingType element entryId =
    (let commodity = getTextContent element ''commodity'';
         uom = getTextContent element ''uom'';
         powerMultiplier = getTextContent element ''powerOfTenMultiplier''
     in \<lparr>rt_id = entryId,
         accumulationBehaviour = orNull (parseInt (getTextContent element ''accumulationBehaviour'')),
         rt_commodity =
           (if nonEmpty commodity
            then Some \<lparr>code = parseInt commodity,
                       description = label COMMODITY_TYPES (parseInt commodity)\<rparr>
            else None),
         rt_currency = orNull (parseInt (getTextContent element ''currency'')),
         dataQualifier = orNull (parseInt (getTextContent element ''dataQualifier'')),
         flowDirection = orNull (parseInt (getTextContent element ''flowDirection'')),
         intervalLength = orNull (parseInt (getTextContent element ''intervalLength'')),
         rt_kind = orNull (parseInt (getTextContent element ''kind'')),
         phase = orNull (parseInt (getTextContent element ''phase'')),
         powerOfTenMultiplier = (if nonEmpty powerMultiplier then parseInt powerMultiplier else Num 0),
         timeAttribute = orNull (parseInt (getTextContent element ''timeAttribute'')),
         rt_uom =
           (if nonEmpty uom
            then Some \<lparr>code = parseInt uom, description = label UOM_TYPES (parseInt uom)\<rparr>
            else None)\<rparr>)"

text \<open>
  \<open>parseIntervalBlock\<close>, lines 241-273. \<open>parseInterval\<close> is the object
  \<open>{duration, start}\<close> built from an \<open>interval\<close>, \<open>timePeriod\<close> or \<open>billingPeriod\<close>
  element; \<open>parseReading\<close> is the body of the loop over the interval readings.
\<close>

definition parseInterval :: "xml option \<Rightarrow> Interval option" where
  "parseInterval element =
    (case element of
       None \<Rightarrow> None
     | Some e \<Rightarrow> Some \<lparr>iv_duration = orNull (parseInt (getTextContent e ''duration'')),
                        iv_start = orNull (parseInt (getTextContent e ''start''))\<rparr>)"

definition parseReading :: "xml \<Rightarrow> IntervalReading" where
  "parseReading reading =
    (let timePeriodElement = querySelector reading [''timePeriod'', ''espi:timePeriod''];
         readingValue = getTextContent reading ''value'';
         cost = getTextContent reading ''cost''
     in \<lparr>ir_cost = (if nonEmpty cost then Some (parseInt cost) else None),
         timePeriod = parseInterval timePeriodElement,
         ir_value = (if nonEmpty readingValue then Some (parseInt readingValue) else None),
         qualityFlags = strOrNull (getTextContent reading ''qualityFlags'')\<rparr>)"

definition parseIntervalBlock :: "xml \<Rightarrow> ident \<Rightarrow> links \<Rightarrow> IntervalBlock" where
  "parseIntervalBlock element entryId links =
    (let intervalElement = querySelector element [''interval'', ''espi:interval''];
         readingElements = querySelectorAll element [''IntervalReading'', ''espi:IntervalReading'']
     in \<lparr>ib_id = entryId,
         interval = parseInterval intervalElement,
         intervalReadings = map parseReading readingElements,
         ib_links = links\<rparr>)"

text \<open>\<open>parseLocalTimeParameters\<close>, lines 278-286.\<close>

definition parseLocalTimeParameters :: "xml \<Rightarrow> ident \<Rightarrow> LocalTimeParameters" where
  "parseLocalTimeParameters element entryId =
    \<lparr>ltp_id = entryId,
     dstEndRule = strOrNull (getTextContent element ''dstEndRule''),
     dstOffset = orNull (parseInt (getTextContent element ''dstOffset'')),
     dstStartRule = strOrNull (getTextContent element ''dstStartRule''),
     tzOffset = orNull (parseInt (getTextContent element ''tzOffset''))\<rparr>"

text \<open>\<open>parseUsageSummary\<close>, lines 291-310.\<close>

definition parseUsageSummary :: "xml \<Rightarrow> ident \<Rightarrow> UsageSummary" where
  "parseUsageSummary element entryId =
    (let billingPeriodElement = querySelector element [''billingPeriod'', ''espi:billingPeriod''];
         overallConsumption = querySelector element
           [''overallConsumptionLastPeriod'', ''espi:overallConsumptionLastPeriod'']
     in \<lparr>us_id = entryId,
         billingPeriod = parseInterval billingPeriodElement,
         billLastPeriod = orNull (parseInt (getTextContent element ''billLastPeriod'')),
         billToDate = orNull (parseInt (getTextContent element ''billToDate'')),
         overallConsumptionLastPeriod =
           (case overallConsumption of
              None \<Rightarrow> None
            | Some oc \<Rightarrow>
                Some \<lparr>oc_powerOfTenMultiplier =
                        orZero (parseInt (getTextContent oc ''powerOfTenMultiplier'')),
                      oc_uom = orNull (parseInt (getTextContent oc ''uom'')),
                      oc_value = orNull (parseInt (getTextContent oc ''value''))\<rparr>),
         us_currency = orNull (parseInt (getTextContent element ''currency''))\<rparr>)"

subsection \<open>GreenButtonParser: parseEntry\<close>

text \<open>
  \<open>parseEntry(entry, parsedData)\<close>, lines 123-155: the links of the entry (the call
  may throw), the six probes, then the \<open>if\<close>/\<open>else if\<close> chain that stores the entry in
  one collection.
\<close>

definition parseEntry :: "xml \<Rightarrow> ParsedData \<Rightarrow> error + ParsedData" where
  "parseEntry entry parsedData =
    (let entryId = getTextContent entry ''id''
     in case querySelector entry [''content''] of
          None \<Rightarrow> Inr parsedData
        | Some content \<Rightarrow>
          (case extractLinks entry of
             Inl e \<Rightarrow> Inl e
           | Inr links \<Rightarrow>
            let usagePoint = querySelector content [''UsagePoint'', ''espi:UsagePoint''];
                meterReading = querySelector content [''MeterReading'', ''espi:MeterReading''];
                intervalBlock = querySelector content [''IntervalBlock'', ''espi:IntervalBlock''];
                readingType = querySelector content [''ReadingType'', ''espi:ReadingType''];
                localTimeParams = querySelector content
                  [''LocalTimeParameters'', ''espi:LocalTimeParameters''];
                usageSummary = querySelector content
                  [''UsageSummary'', ''espi:UsageSummary'', ''ElectricPowerUsageSummary'',
                   ''espi:ElectricPowerUsageSummary'']
            in Inr (case usagePoint of
                 Some e \<Rightarrow> parsedData\<lparr>usagePoints :=
                   mapSet entryId (parseUsagePoint e entryId links) (usagePoints parsedData)\<rparr>
               | None \<Rightarrow>
              (case meterReading of
                 Some e \<Rightarrow> parsedData\<lparr>meterReadings :=
                   mapSet entryId (parseMeterReading e entryId links) (meterReadings parsedData)\<rparr>
               | None \<Rightarrow>
              (case intervalBlock of
                 Some e \<Rightarrow> parsedData\<lparr>intervalBlocks :=
                   mapSet entryId (parseIntervalBlock e entryId links) (intervalBlocks parsedData)\<rparr>
               | None \<Rightarrow>
              (case readingType of
                 Some e \<Rightarrow> parsedData\<lparr>readingTypes :=
                   mapSet entryId (parseReadingType e entryId) (readingTypes parsedData)\<rparr>
               | None \<Rightarrow>
              (case localTimeParams of
                 Some e \<Rightarrow> parsedData\<lparr>localTimeParameters :=
                   mapSet entryId (parseLocalTimeParameters e entryId)
                     (localTimeParameters parsedData)\<rparr>
               | None \<Rightarrow>
              (case usageSummary of
                 Some e \<Rightarrow> parsedData\<lparr>usageSummaries :=
                   mapSet entryId (parseUsageSummary e entryId) (usageSummaries parsedData)\<rparr>
               | None \<Rightarrow> parsedData))))))))"

subsection \<open>GreenButtonParser: buildRelationships\<close>

text \<open>
  \<open>linksTo links word\<close>: the \<open>related\<close> links whose URI includes \<open>word\<close>
  (\<open>(links.related || []).filter(link => link.includes(word))\<close>).
  \<open>pushTo src t rel\<close> is \<open>rel.get(src).push(t)\<close>; every call comes after the key
  was set, so the array is there.
\<close>

definition linksTo :: "links \<Rightarrow> string \<Rightarrow> string list" where
  "linksTo links word =
    filter (\<lambda>link. includesStr link word)
      (case map_of links ''related'' of None \<Rightarrow> [] | Some related \<Rightarrow> related)"

definition pushTo :: "ident \<Rightarrow> ident \<Rightarrow> (ident \<times> ident list) list \<Rightarrow> (ident \<times> ident list) list" where
  "pushTo src t rel = (case mapGet rel src of None \<Rightarrow> rel | Some ts \<Rightarrow> mapSet src (ts @ [t]) rel)"

text \<open>The inner loops: over the keys of the target collection.\<close>

fun pushKeys :: "ident \<Rightarrow> ident list \<Rightarrow> (ident \<times> ident list) list \<Rightarrow> (ident \<times> ident list) list" where
  "pushKeys src [] rel = rel"
| "pushKeys src (t # ts) rel = pushKeys src ts (pushTo src t rel)"

fun pushKeysCreating :: "ident \<Rightarrow> ident list \<Rightarrow> (ident \<times> ident list) list \<Rightarrow> (ident \<times> ident list) list" where
  "pushKeysCreating src [] rel = rel"
| "pushKeysCreating src (t # ts) rel =
     pushKeysCreating src ts (pushTo src t (if \<not> mapHas rel src then mapSet src [] rel else rel))"

text \<open>The three outer loops, lines 317-328, 331-341 and 344-356.\<close>

fun usagePointLoop :: "(ident \<times> UsagePoint) list \<Rightarrow> ident list \<Rightarrow> (ident \<times> ident list) list \<Rightarrow> (ident \<times> ident list) list" where
  "usagePointLoop [] mrIds rel = rel"
| "usagePointLoop ((upId, usagePoint) # rest) mrIds rel =
     usagePointLoop rest mrIds
       (if length (linksTo (up_links usagePoint) ''MeterReading'') > 0
        then pushKeys upId mrIds (mapSet upId [] rel)
        else rel)"

fun intervalBlockLoop :: "(ident \<times> MeterReading) list \<Rightarrow> ident list \<Rightarrow> (ident \<times> ident list) list \<Rightarrow> (ident \<times> ident list) list" where
  "intervalBlockLoop [] ibIds rel = rel"
| "intervalBlockLoop ((mrId, meterReading) # rest) ibIds rel =
     intervalBlockLoop rest ibIds
       (if length (linksTo (mr_links meterReading) ''IntervalBlock'') > 0
        then pushKeys mrId ibIds (mapSet mrId [] rel)
        else rel)"

fun readingTypeLoop :: "(ident \<times> MeterReading) list \<Rightarrow> ident list \<Rightarrow> (ident \<times> ident list) list \<Rightarrow> (ident \<times> ident list) list" where
  "readingTypeLoop [] rtIds rel = rel"
| "readingTypeLoop ((mrId, meterReading) # rest) rtIds rel =
     readingTypeLoop rest rtIds
       (if length (linksTo (mr_links meterReading) ''ReadingType'') > 0
        then pushKeysCreating mrId rtIds rel
        else rel)"

definition buildRelationships :: "ParsedData \<Rightarrow> ParsedData" where
  "buildRelationships parsedData =
    parsedData\<lparr>relationships :=
      \<lparr>usagePointToMeterReadings =
         usagePointLoop (usagePoints parsedData) (mapKeys (meterReadings parsedData))
           (usagePointToMeterReadings (relationships parsedData)),
       meterReadingToIntervalBlocks =
         intervalBlockLoop (meterReadings parsedData) (mapKeys (intervalBlocks parsedData))
           (meterReadingToIntervalBlocks (relationships parsedData)),
       meterReadingToReadingTypes =
         readingTypeLoop (meterReadings parsedData) (mapKeys (readingTypes parsedData))
           (meterReadingToReadingTypes (relationships parsedData))\<rparr>\<rparr>"

subsection \<open>GreenButtonParser: parseXML\<close>

text \<open>
  \<open>parseXML\<close>, lines 63-118, from the document that \<open>DOMParser\<close> returned on
  (\<open>xmlDoc\<close>: the document node, its children the top-level nodes). The two errors
  of \<open>parseXML\<close> itself and what \<open>parseEntry\<close> throws are thrown inside the \<open>try\<close>
  and rethrown as an \<open>Error\<close> with the prefix of the \<open>catch\<close>.
\<close>

definition emptyRelationships :: Relationships where
  "emptyRelationships =
    \<lparr>usagePointToMeterReadings = [], meterReadingToIntervalBlocks = [],
     meterReadingToReadingTypes = []\<rparr>"

fun parseEntries :: "xml list \<Rightarrow> ParsedData \<Rightarrow> error + ParsedData" where
  "parseEntries [] parsedData = Inr parsedData"
| "parseEntries (entry # entries) parsedData =
     (case parseEntry entry parsedData of
        Inl e \<Rightarrow> Inl e
      | Inr parsedData' \<Rightarrow> parseEntries entries parsedData')"

definition parseXML :: "xml \<Rightarrow> error + ParsedData" where
  "parseXML xmlDoc =
    (case querySelector xmlDoc [''parsererror''] of
       Some parserError \<Rightarrow>
         Inl (Error (''Failed to parse Green Button XML: '' @ ''XML parsing error: '' @
                     textContent parserError))
     | None \<Rightarrow>
         (case querySelector xmlDoc [''feed''] of
            None \<Rightarrow>
              Inl (Error (''Failed to parse Green Button XML: '' @
                          ''Invalid Green Button file: No feed element found''))
          | Some feed \<Rightarrow>
              let entries = querySelectorAll xmlDoc [''entry''];
                  parsedData =
                    \<lparr>metadata = \<lparr>feedId = getTextContent feed ''id'',
                                  feedTitle = getTextContent feed ''title'',
                                  updated = getTextContent feed ''updated'',
                                  totalEntries = length entries\<rparr>,
                     usagePoints = [], meterReadings = [], intervalBlocks = [],
                     readingTypes = [], localTimeParameters = [], usageSummaries = [],
                     relationships = emptyRelationships\<rparr>
              in (case parseEntries entries parsedData of
                    Inl e \<Rightarrow> Inl (Error (''Failed to parse Green Button XML: '' @ message e))
                  | Inr parsedData' \<Rightarrow> Inr (buildRelationships parsedData'))))"

subsection \<open>GreenButtonParser: toFlatData\<close>

text \<open>
  A row of the flat table; the fields are the columns (\<open>row_value\<close> is the column
  \<open>value\<close>, \<open>row_cost\<close>, \<open>row_duration\<close>, \<open>row_commodity\<close> and \<open>row_uom\<close> the
  columns \<open>cost\<close>, \<open>duration\<close>, \<open>commodity\<close> and \<open>uom\<close>).
\<close>

record FlatRow =
  usage_point_id :: ident
  meter_reading_id :: ident
  interval_block_id :: ident
  reading_type_id :: ident
  service_category :: "string option"
  row_commodity :: "string option"
  row_uom :: "string option"
  power_multiplier :: "jsint option"
  start_time :: "string option"
  row_duration :: "jsint option"
  end_time :: "string option"
  row_value :: "jsint option"
  row_cost :: "jsint option"
  quality_flags :: "string option"
  interval_length :: "jsint option"
  calculated_value :: "number option"
  calculated_cost :: "string option"

text \<open>\<open>map.get(key) || []\<close>: the related ids of a key, none when the key is absent.\<close>

definition getOrEmpty :: "(ident \<times> ident list) list \<Rightarrow> ident \<Rightarrow> ident list" where
  "getOrEmpty m k = (case mapGet m k of None \<Rightarrow> [] | Some ids \<Rightarrow> ids)"

text \<open>
  The body of the innermost loop, lines 406-431. First the four constants of lines
  407-410, as functions of the loop variables they read; \<open>readingType\<close> is \<open>None\<close>
  when it is \<open>null\<close> or \<open>undefined\<close>. The products and the quotient are exact
  numbers; they are the doubles of the source within the bounds of the conventions (a
  multiplier that is not negative, a product of magnitude at most \<open>2^53\<close>, and below
  \<open>100 * 2^46\<close> for the cost).
\<close>

definition powerMultiplier :: "ReadingType option \<Rightarrow> jsint" where
  "powerMultiplier readingType =
    (case readingType of Some rt \<Rightarrow> powerOfTenMultiplier rt | None \<Rightarrow> Num 0)"

definition calculatedValue :: "ReadingType option \<Rightarrow> IntervalReading \<Rightarrow> number option" where
  "calculatedValue readingType reading =
    (case ir_value reading of
       Some v \<Rightarrow> if truthy (Some v) then Some (times v (pow10 (powerMultiplier readingType)))
                 else None
     | None \<Rightarrow> None)"

definition calculatedCostWithMultiplier :: "ReadingType option \<Rightarrow> IntervalReading \<Rightarrow> number option" where
  "calculatedCostWithMultiplier readingType reading =
    (case ir_cost reading of
       Some c \<Rightarrow> if truthy (Some c) then Some (times c (pow10 (powerMultiplier readingType)))
                 else None
     | None \<Rightarrow> None)"

definition calculatedCost :: "ReadingType option \<Rightarrow> IntervalReading \<Rightarrow> string option" where
  "calculatedCost readingType reading =
    (case calculatedCostWithMultiplier readingType reading of
       Some (Number x) \<Rightarrow> if x \<noteq> 0 then Some (toFixed 2 (x / 100)) else None
     | _ \<Rightarrow> None)"

text \<open>The values of \<open>start_time\<close> and \<open>end_time\<close>, lines 421 and 423-424.\<close>

definition startTime :: "IntervalReading \<Rightarrow> error + string option" where
  "startTime reading =
    formatTimestamp (case timePeriod reading of Some tp \<Rightarrow> iv_start tp | None \<Rightarrow> None)"

definition endTime :: "IntervalReading \<Rightarrow> error + string option" where
  "endTime reading =
    (case timePeriod reading of
       None \<Rightarrow> Inr None
     | Some tp \<Rightarrow>
         (case (iv_start tp, iv_duration tp) of
            (Some s, Some d) \<Rightarrow>
              if truthy (Some s) \<and> truthy (Some d) then formatTimestamp (Some (plusInt s d))
              else Inr None
          | _ \<Rightarrow> Inr None))"

text \<open>
  The row pushed for one interval reading, from the loop variables in scope. The two
  calls of \<open>formatTimestamp\<close> may throw.
\<close>

definition flatRow :: "ident \<Rightarrow> UsagePoint \<Rightarrow> ident \<Rightarrow> ident list \<Rightarrow> ReadingType option \<Rightarrow> ident \<Rightarrow>
    IntervalReading \<Rightarrow> error + FlatRow" where
  "flatRow upId usagePoint mrId relatedReadingTypes readingType ibId reading =
    (case startTime reading of
       Inl e \<Rightarrow> Inl e
     | Inr startIso \<Rightarrow>
         (case endTime reading of
            Inl e \<Rightarrow> Inl e
          | Inr endIso \<Rightarrow>
              Inr \<lparr>usage_point_id = upId,
                   meter_reading_id = mrId,
                   interval_block_id = ibId,
                   reading_type_id =
                     (case relatedReadingTypes of [] \<Rightarrow> None | rtId # _ \<Rightarrow> strOrNull rtId),
                   service_category =
                     (case up_serviceCategory usagePoint of
                        Some sc \<Rightarrow> Some (sc_description sc) | None \<Rightarrow> None),
                   row_commodity =
                     (case readingType of
                        Some rt \<Rightarrow> (case rt_commodity rt of
                                      Some c \<Rightarrow> Some (description c) | None \<Rightarrow> None)
                      | None \<Rightarrow> None),
                   row_uom =
                     (case readingType of
                        Some rt \<Rightarrow> (case rt_uom rt of
                                      Some u \<Rightarrow> Some (description u) | None \<Rightarrow> None)
                      | None \<Rightarrow> None),
                   power_multiplier =
                     (case readingType of
                        Some rt \<Rightarrow> Some (powerOfTenMultiplier rt) | None \<Rightarrow> None),
                   start_time = startIso,
                   row_duration =
                     (case timePeriod reading of Some tp \<Rightarrow> iv_duration tp | None \<Rightarrow> None),
                   end_time = endIso,
                   row_value = ir_value reading,
                   row_cost = ir_cost reading,
                   quality_flags = qualityFlags reading,
                   interval_length =
                     (case readingType of Some rt \<Rightarrow> intervalLength rt | None \<Rightarrow> None),
                   calculated_value = calculatedValue readingType reading,
                   calculated_cost = calculatedCost readingType reading\<rparr>))"

text \<open>
  The four nested loops of \<open>toFlatData\<close>, lines 385-435, innermost first; each takes
  the rows pushed so far. A key that is missing from its collection is skipped
  (\<open>continue\<close>); an exception ends every loop.
\<close>

fun readingLoop :: "ident \<Rightarrow> UsagePoint \<Rightarrow> ident \<Rightarrow> ident list \<Rightarrow> ReadingType option \<Rightarrow> ident \<Rightarrow>
    IntervalReading list \<Rightarrow> FlatRow list \<Rightarrow> error + FlatRow list" where
  "readingLoop upId usagePoint mrId rtIds readingType ibId [] flatData = Inr flatData"
| "readingLoop upId usagePoint mrId rtIds readingType ibId (reading # readings) flatData =
     (case flatRow upId usagePoint mrId rtIds readingType ibId reading of
        Inl e \<Rightarrow> Inl e
      | Inr row \<Rightarrow>
          readingLoop upId usagePoint mrId rtIds readingType ibId readings (flatData @ [row]))"

fun blockLoop :: "ParsedData \<Rightarrow> ident \<Rightarrow> UsagePoint \<Rightarrow> ident \<Rightarrow> ident list \<Rightarrow> ReadingType option \<Rightarrow>
    ident list \<Rightarrow> FlatRow list \<Rightarrow> error + FlatRow list" where
  "blockLoop parsedData upId usagePoint mrId rtIds readingType [] flatData = Inr flatData"
| "blockLoop parsedData upId usagePoint mrId rtIds readingType (ibId # ibIds) flatData =
     (case mapGet (intervalBlocks parsedData) ibId of
        None \<Rightarrow> blockLoop parsedData upId usagePoint mrId rtIds readingType ibIds flatData
      | Some intervalBlock \<Rightarrow>
          (case readingLoop upId usagePoint mrId rtIds readingType ibId
                  (intervalReadings intervalBlock) flatData of
             Inl e \<Rightarrow> Inl e
           | Inr flatData' \<Rightarrow>
               blockLoop parsedData upId usagePoint mrId rtIds readingType ibIds flatData'))"

text \<open>
  \<open>firstReadingType\<close>: \<open>relatedReadingTypes.length > 0 ?
  parsedData.readingTypes.get(relatedReadingTypes[0]) : null\<close>.
\<close>

definition firstReadingType :: "ParsedData \<Rightarrow> ident list \<Rightarrow> ReadingType option" where
  "firstReadingType parsedData relatedReadingTypes =
    (case relatedReadingTypes of [] \<Rightarrow> None | rtId # _ \<Rightarrow> mapGet (readingTypes parsedData) rtId)"

fun meterLoop :: "ParsedData \<Rightarrow> ident \<Rightarrow> UsagePoint \<Rightarrow> ident list \<Rightarrow> FlatRow list \<Rightarrow> error + FlatRow list" where
  "meterLoop parsedData upId usagePoint [] flatData = Inr flatData"
| "meterLoop parsedData upId usagePoint (mrId # mrIds) flatData =
     (case mapGet (meterReadings parsedData) mrId of
        None \<Rightarrow> meterLoop parsedData upId usagePoint mrIds flatData
      | Some meterReading \<Rightarrow>
          let relatedReadingTypes =
                getOrEmpty (meterReadingToReadingTypes (relationships parsedData)) mrId;
              readingType = firstReadingType parsedData relatedReadingTypes;
              relatedIntervalBlocks =
                getOrEmpty (meterReadingToIntervalBlocks (relationships parsedData)) mrId
          in case blockLoop parsedData upId usagePoint mrId relatedReadingTypes readingType
                    relatedIntervalBlocks flatData of
               Inl e \<Rightarrow> Inl e
             | Inr flatData' \<Rightarrow> meterLoop parsedData upId usagePoint mrIds flatData')"

fun pointLoop :: "ParsedData \<Rightarrow> (ident \<times> UsagePoint) list \<Rightarrow> FlatRow list \<Rightarrow> error + FlatRow list" where
  "pointLoop parsedData [] flatData = Inr flatData"
| "pointLoop parsedData ((upId, usagePoint) # rest) flatData =
     (case meterLoop parsedData upId usagePoint
             (getOrEmpty (usagePointToMeterReadings (relationships parsedData)) upId) flatData of
        Inl e \<Rightarrow> Inl e
      | Inr flatData' \<Rightarrow> pointLoop parsedData rest flatData')"

definition toFlatData :: "ParsedData \<Rightarrow> error + FlatRow list" where
  "toFlatData parsedData = pointLoop parsedData (usagePoints parsedData) []"

subsection \<open>The traversal that \<open>toFlatData\<close> is to perform\<close>

text \<open>
  Written from the description of \<open>flatten\<close>, with the functions of the library only,
  for comparison with the loops: for every usage point in the order of the collection,
  for every related meter reading that is in the collection, with the first related
  reading type only, for every related interval block that is in the collection, for
  every interval reading of the block, the loop variables of one row (a \<open>scope\<close>).
  \<open>relatedIds relation k\<close> are the ids that the relation gives for \<open>k\<close>, none when it
  has no entry; \<open>firstRelatedReadingType\<close> is the reading type whose id comes first
  among the related ones, whatever follows it.
\<close>

type_synonym scope = "ident \<times> UsagePoint \<times> ident \<times> ident list \<times> ReadingType option \<times> ident \<times> IntervalReading"

definition relatedIds :: "(ident \<times> ident list) list \<Rightarrow> ident \<Rightarrow> ident list" where
  "relatedIds relation k = (case map_of relation k of None \<Rightarrow> [] | Some ids \<Rightarrow> ids)"

definition firstRelatedReadingType :: "ParsedData \<Rightarrow> ident \<Rightarrow> ReadingType option" where
  "firstRelatedReadingType pd mrId =
    (case relatedIds (meterReadingToReadingTypes (relationships pd)) mrId of
       [] \<Rightarrow> None
     | rtId # further \<Rightarrow> map_of (readingTypes pd) rtId)"

definition reached :: "ParsedData \<Rightarrow> scope list" where
  "reached pd =
    concat (map (\<lambda>(upId, usagePoint).
      concat (map (\<lambda>mrId.
        case map_of (meterReadings pd) mrId of
          None \<Rightarrow> []
        | Some meterReading \<Rightarrow>
            concat (map (\<lambda>ibId.
              case map_of (intervalBlocks pd) ibId of
                None \<Rightarrow> []
              | Some intervalBlock \<Rightarrow>
                  map (\<lambda>reading.
                    (upId, usagePoint, mrId,
                     relatedIds (meterReadingToReadingTypes (relationships pd)) mrId,
                     firstRelatedReadingType pd mrId, ibId, reading))
                    (intervalReadings intervalBlock))
              (relatedIds (meterReadingToIntervalBlocks (relationships pd)) mrId)))
        (relatedIds (usagePointToMeterReadings (relationships pd)) upId)))
      (usagePoints pd))"

text \<open>
  \<open>flatRowOf s\<close>: the row that the body of the innermost loop pushes for the loop
  variables \<open>s\<close>. \<open>collect\<close> gathers the rows, or the first exception;
  \<open>withPrefix acc r\<close> puts the rows \<open>acc\<close> before the rows of \<open>r\<close>.
\<close>

definition flatRowOf :: "scope \<Rightarrow> error + FlatRow" where
  "flatRowOf = (\<lambda>(upId, usagePoint, mrId, relatedReadingTypes, readingType, ibId, reading).
     flatRow upId usagePoint mrId relatedReadingTypes readingType ibId reading)"

text \<open>The loop variables of a scope.\<close>

definition scopeUsagePointId :: "scope \<Rightarrow> ident" where
  "scopeUsagePointId = (\<lambda>(upId, usagePoint, mrId, rtIds, readingType, ibId, reading). upId)"

definition scopeUsagePoint :: "scope \<Rightarrow> UsagePoint" where
  "scopeUsagePoint =
    (\<lambda>(upId, usagePoint, mrId, rtIds, readingType, ibId, reading). usagePoint)"

definition scopeMeterReadingId :: "scope \<Rightarrow> ident" where
  "scopeMeterReadingId = (\<lambda>(upId, usagePoint, mrId, rtIds, readingType, ibId, reading). mrId)"

definition scopeReadingTypeIds :: "scope \<Rightarrow> ident list" where
  "scopeReadingTypeIds = (\<lambda>(upId, usagePoint, mrId, rtIds, readingType, ibId, reading). rtIds)"

definition scopeReadingType :: "scope \<Rightarrow> ReadingType option" where
  "scopeReadingType =
    (\<lambda>(upId, usagePoint, mrId, rtIds, readingType, ibId, reading). readingType)"

definition scopeIntervalBlockId :: "scope \<Rightarrow> ident" where
  "scopeIntervalBlockId = (\<lambda>(upId, usagePoint, mrId, rtIds, readingType, ibId, reading). ibId)"

definition scopeReading :: "scope \<Rightarrow> IntervalReading" where
  "scopeReading = (\<lambda>(upId, usagePoint, mrId, rtIds, readingType, ibId, reading). reading)"

text \<open>
  The timestamps of a reading are within the range of \<open>Date\<close>: its start, and its
  end when start and duration are both present and not zero, are at most 8.64e15
  milliseconds from the epoch.
\<close>

definition inDateRange :: "jsint option \<Rightarrow> bool" where
  "inDateRange t =
    (case t of Some (Num n) \<Rightarrow> \<bar>n * 1000\<bar> \<le> 8640000000000000 | _ \<Rightarrow> True)"

definition timesInRange :: "IntervalReading \<Rightarrow> bool" where
  "timesInRange reading =
    (case timePeriod reading of
       None \<Rightarrow> True
     | Some tp \<Rightarrow>
         (case iv_start tp of
            Some (Num s) \<Rightarrow>
              \<bar>s * 1000\<bar> \<le> 8640000000000000 \<and>
              (case iv_duration tp of
                 Some (Num d) \<Rightarrow>
                   if s \<noteq> 0 \<and> d \<noteq> 0 then \<bar>(s + d) * 1000\<bar> \<le> 8640000000000000 else True
               | _ \<Rightarrow> True)
          | _ \<Rightarrow> True))"

fun withPrefix :: "'a list \<Rightarrow> error + 'a list \<Rightarrow> error + 'a list" where
  "withPrefix acc (Inl e) = Inl e"
| "withPrefix acc (Inr vs) = Inr (acc @ vs)"

fun collect :: "(error + 'a) list \<Rightarrow> error + 'a list" where
  "collect [] = Inr []"
| "collect (x # xs) = (case x of Inl e \<Rightarrow> Inl e | Inr v \<Rightarrow> withPrefix [v] (collect xs))"

text \<open>
  The loop variables for which the loop over the readings of one interval block, the
  loop over the interval blocks of one meter reading and the loop over the meter readings
  of one usage point push a row, stated with the functions that the loops call; they
  relate the loops to \<open>reached\<close>.
\<close>

definition blockScopes :: "ParsedData \<Rightarrow> ident \<Rightarrow> UsagePoint \<Rightarrow> ident \<Rightarrow> ident list \<Rightarrow>
    ReadingType option \<Rightarrow> ident \<Rightarrow> scope list" where
  "blockScopes pd upId up mrId rtIds rt ibId =
     (case mapGet (intervalBlocks pd) ibId of
        None \<Rightarrow> []
      | Some intervalBlock \<Rightarrow>
          map (\<lambda>reading. (upId, up, mrId, rtIds, rt, ibId, reading)) (intervalReadings intervalBlock))"

definition meterScopes :: "ParsedData \<Rightarrow> ident \<Rightarrow> UsagePoint \<Rightarrow> ident \<Rightarrow> scope list" where
  "meterScopes pd upId up mrId =
     (case mapGet (meterReadings pd) mrId of
        None \<Rightarrow> []
      | Some meterReading \<Rightarrow>
          concat (map (blockScopes pd upId up mrId
                    (getOrEmpty (meterReadingToReadingTypes (relationships pd)) mrId)
                    (firstReadingType pd
                       (getOrEmpty (meterReadingToReadingTypes (relationships pd)) mrId)))
            (getOrEmpty (meterReadingToIntervalBlocks (relationships pd)) mrId)))"

definition pointScopes :: "ParsedData \<Rightarrow> ident \<times> UsagePoint \<Rightarrow> scope list" where
  "pointScopes pd = (\<lambda>(upId, up).
     concat (map (meterScopes pd upId up)
       (getOrEmpty (usagePointToMeterReadings (relationships pd)) upId)))"

text \<open>
  The end of a reading in epoch seconds, where \<open>toFlatData\<close> produces one: start and
  duration are both present and not zero, and their sum is not zero.
\<close>

definition endSeconds :: "IntervalReading \<Rightarrow> int option" where
  "endSeconds reading =
    (case timePeriod reading of
       None \<Rightarrow> None
     | Some tp \<Rightarrow>
         (case (iv_start tp, iv_duration tp) of
            (Some (Num s), Some (Num d)) \<Rightarrow>
              if s \<noteq> 0 \<and> d \<noteq> 0 \<and> s + d \<noteq> 0 then Some (s + d) else None
          | _ \<Rightarrow> None))"

subsection \<open>Words of the specification about relationships and classification\<close>

text \<open>
  \<open>hasRelatedLink links word\<close>: there is a link under the relation type \<open>related\<close>
  whose URI contains \<open>word\<close>.
\<close>

definition hasRelatedLink :: "links \<Rightarrow> string \<Rightarrow> bool" where
  "hasRelatedLink links word =
    list_ex (\<lambda>uri. includesStr uri word)
      (case map_of links ''related'' of None \<Rightarrow> [] | Some related \<Rightarrow> related)"

text \<open>
  The six resource types in the order of priority, the selector that probes for each, and
  the type an entry's content is classified as: the first in that order whose element is
  found in the content.
\<close>

datatype resourceKind =
  KUsagePoint | KMeterReading | KIntervalBlock | KReadingType | KLocalTimeParameters | KUsageSummary

fun selectorsOf :: "resourceKind \<Rightarrow> string list" where
  "selectorsOf KUsagePoint = [''UsagePoint'', ''espi:UsagePoint'']"
| "selectorsOf KMeterReading = [''MeterReading'', ''espi:MeterReading'']"
| "selectorsOf KIntervalBlock = [''IntervalBlock'', ''espi:IntervalBlock'']"
| "selectorsOf KReadingType = [''ReadingType'', ''espi:ReadingType'']"
| "selectorsOf KLocalTimeParameters = [''LocalTimeParameters'', ''espi:LocalTimeParameters'']"
| "selectorsOf KUsageSummary =
     [''UsageSummary'', ''espi:UsageSummary'', ''ElectricPowerUsageSummary'',
      ''espi:ElectricPowerUsageSummary'']"

definition priorityOrder :: "resourceKind list" where
  "priorityOrder =
    [KUsagePoint, KMeterReading, KIntervalBlock, KReadingType, KLocalTimeParameters, KUsageSummary]"

definition classify :: "xml \<Rightarrow> resourceKind option" where
  "classify content = List.find (\<lambda>k. querySelector content (selectorsOf k) \<noteq> None) priorityOrder"

text \<open>
  A parsed resource of any type, the collection of each type with its values tagged, and
  the parser of each type.
\<close>

datatype entity =
  EUsagePoint UsagePoint | EMeterReading MeterReading | EIntervalBlock IntervalBlock
| EReadingType ReadingType | ELocalTimeParameters LocalTimeParameters | EUsageSummary UsageSummary

fun collection :: "resourceKind \<Rightarrow> ParsedData \<Rightarrow> (ident \<times> entity) list" where
  "collection KUsagePoint pd = map (\<lambda>(k, v). (k, EUsagePoint v)) (usagePoints pd)"
| "collection KMeterReading pd = map (\<lambda>(k, v). (k, EMeterReading v)) (meterReadings pd)"
| "collection KIntervalBlock pd = map (\<lambda>(k, v). (k, EIntervalBlock v)) (intervalBlocks pd)"
| "collection KReadingType pd = map (\<lambda>(k, v). (k, EReadingType v)) (readingTypes pd)"
| "collection KLocalTimeParameters pd =
     map (\<lambda>(k, v). (k, ELocalTimeParameters v)) (localTimeParameters pd)"
| "collection KUsageSummary pd = map (\<lambda>(k, v). (k, EUsageSummary v)) (usageSummaries pd)"

fun parseAs :: "resourceKind \<Rightarrow> xml \<Rightarrow> ident \<Rightarrow> links \<Rightarrow> entity" where
  "parseAs KUsagePoint e entryId links = EUsagePoint (parseUsagePoint e entryId links)"
| "parseAs KMeterReading e entryId links = EMeterReading (parseMeterReading e entryId links)"
| "parseAs KIntervalBlock e entryId links = EIntervalBlock (parseIntervalBlock e entryId links)"
| "parseAs KReadingType e entryId links = EReadingType (parseReadingType e entryId)"
| "parseAs KLocalTimeParameters e entryId links =
     ELocalTimeParameters (parseLocalTimeParameters e entryId)"
| "parseAs KUsageSummary e entryId links = EUsageSummary (parseUsageSummary e entryId)"

subsection \<open>Example documents\<close>

text \<open>
  \<open>leaf\<close>: an element with text; \<open>relatedLink\<close>: a \<open>link\<close> element with
  \<open>rel="related"\<close>; \<open>entryOf\<close>: an entry with an id, links and one resource as its
  content; \<open>feedOf\<close>: a document whose root is a feed of entries.
\<close>

definition leaf :: "string \<Rightarrow> string \<Rightarrow> xml" where
  "leaf name txt = Element name [] [Text txt]"

definition relatedLink :: "string \<Rightarrow> xml" where
  "relatedLink href = Element ''link'' [(''rel'', ''related''), (''href'', href)] []"

definition entryOf :: "string \<Rightarrow> xml list \<Rightarrow> xml list \<Rightarrow> xml" where
  "entryOf ident linkElements resources =
    Element ''entry'' [] ([leaf ''id'' ident] @ linkElements @ [Element ''content'' [] resources])"

definition feedOf :: "xml list \<Rightarrow> xml" where
  "feedOf entries =
    Element ''#document'' []
      [Element ''feed'' []
         ([leaf ''id'' ''feed1'', leaf ''title'' ''Green Button Usage Feed'',
           leaf ''updated'' ''2021-01-02T00:00:00Z''] @ entries)]"

definition readingOf :: "string option \<Rightarrow> string option \<Rightarrow> (string \<times> string) option \<Rightarrow> xml" where
  "readingOf cost val period =
    Element ''IntervalReading'' []
      ((case cost of None \<Rightarrow> [] | Some c \<Rightarrow> [leaf ''cost'' c]) @
       (case period of
          None \<Rightarrow> []
        | Some (start, duration) \<Rightarrow>
            [Element ''timePeriod'' [] [leaf ''duration'' duration, leaf ''start'' start]]) @
       (case val of None \<Rightarrow> [] | Some v \<Rightarrow> [leaf ''value'' v]))"

text \<open>
  A feed with one usage point, one meter reading linked to interval blocks and reading
  types, one reading type with multiplier 0 and one interval block of four readings: an
  ordinary one, one with value 0 and cost 0, one without value, cost and time period, and
  one that starts 900 seconds before the epoch and lasts 900 seconds.
\<close>

definition usagePointEntry :: xml where
  "usagePointEntry =
    entryOf ''up1'' [relatedLink ''/UsagePoint/1/MeterReading'']
      [Element ''UsagePoint'' [] [Element ''ServiceCategory'' [] [leaf ''kind'' ''0'']]]"

definition readingTypeEntry :: xml where
  "readingTypeEntry =
    entryOf ''rt1'' []
      [Element ''ReadingType'' []
         [leaf ''commodity'' ''1'', leaf ''intervalLength'' ''900'',
          leaf ''powerOfTenMultiplier'' ''0'', leaf ''uom'' ''72'']]"

definition intervalBlockEntry :: xml where
  "intervalBlockEntry =
    entryOf ''ib1'' []
      [Element ''IntervalBlock'' []
         [Element ''interval'' [] [leaf ''duration'' ''86400'', leaf ''start'' ''1609459200''],
          readingOf (Some ''256347'') (Some ''1500'') (Some (''1609459200'', ''900'')),
          readingOf (Some ''0'') (Some ''0'') (Some (''1609460100'', ''900'')),
          readingOf None None None,
          readingOf None (Some ''7'') (Some (''-900'', ''900''))]]"

definition exampleFeed :: xml where
  "exampleFeed =
    feedOf
      [usagePointEntry,
       entryOf ''mr1''
         [relatedLink ''/UsagePoint/1/MeterReading/1/IntervalBlock'',
          relatedLink ''/ReadingType/1'']
         [Element ''MeterReading'' [] []],
       readingTypeEntry,
       intervalBlockEntry]"

text \<open>The same feed, but the meter reading has no link to a reading type.\<close>

definition untypedFeed :: xml where
  "untypedFeed =
    feedOf
      [usagePointEntry,
       entryOf ''mr1'' [relatedLink ''/UsagePoint/1/MeterReading/1/IntervalBlock'']
         [Element ''MeterReading'' [] []],
       readingTypeEntry,
       intervalBlockEntry]"

text \<open>
  The feed of the example with a second reading type, for gas, and the meter reading
  related to both; and a feed whose one interval reading starts one second after the last
  second that \<open>Date\<close> can hold.
\<close>

definition gasReadingTypeEntry :: xml where
  "gasReadingTypeEntry =
    entryOf ''rt2'' []
      [Element ''ReadingType'' []
         [leaf ''commodity'' ''2'', leaf ''intervalLength'' ''3600'',
          leaf ''powerOfTenMultiplier'' ''3'', leaf ''uom'' ''31'']]"

definition twoTypesFeed :: xml where
  "twoTypesFeed =
    feedOf
      [usagePointEntry,
       entryOf ''mr1''
         [relatedLink ''/UsagePoint/1/MeterReading/1/IntervalBlock'',
          relatedLink ''/ReadingType/1'']
         [Element ''MeterReading'' [] []],
       readingTypeEntry,
       gasReadingTypeEntry,
       intervalBlockEntry]"

definition lateFeed :: xml where
  "lateFeed =
    feedOf
      [usagePointEntry,
       entryOf ''mr1''
         [relatedLink ''/UsagePoint/1/MeterReading/1/IntervalBlock'',
          relatedLink ''/ReadingType/1'']
         [Element ''MeterReading'' [] []],
       readingTypeEntry,
       entryOf ''ib1'' []
         [Element ''IntervalBlock'' []
            [readingOf None (Some ''5'') (Some (''8640000000001'', ''900''))]]]"

text \<open>An entry whose content holds a meter reading and, after it, a usage point.\<close>

definition mixedEntry :: xml where
  "mixedEntry =
    entryOf ''e1'' []
      [Element ''MeterReading'' [] [], Element ''UsagePoint'' [] []]"

definition mixedContent :: xml where
  "mixedContent = Element ''content'' [] [Element ''MeterReading'' [] [], Element ''UsagePoint'' [] []]"

text \<open>
  An entry whose content is a usage point and whose one link has the relation type
  \<open>constructor\<close>: \<open><link rel="constructor" href="/UsagePoint/2"/>\<close>.
\<close>

definition inheritedRelEntry :: xml where
  "inheritedRelEntry =
    entryOf ''up2'' [Element ''link'' [(''rel'', ''constructor''), (''href'', ''/UsagePoint/2'')] []]
      [Element ''UsagePoint'' [] []]"

text \<open>\<open>parse\<close> then \<open>flatten\<close>, as the application calls them.\<close>

definition flattenFeed :: "xml \<Rightarrow> error + FlatRow list" where
  "flattenFeed xmlDoc = (case parseXML xmlDoc of Inl e \<Rightarrow> Inl e | Inr parsedData \<Rightarrow> toFlatData parsedData)"

text \<open>What \<open>parseXML\<close> returns for \<open>exampleFeed\<close>, piece by piece.\<close>

definition exampleUsagePoint :: UsagePoint where
  "exampleUsagePoint =
    \<lparr>up_id = Some ''up1'',
     up_serviceCategory = Some \<lparr>sc_kind = Num 0, sc_description = ''Electricity''\<rparr>,
     up_links = [(''related'', [''/UsagePoint/1/MeterReading''])],
     up_description = None\<rparr>"

definition exampleReadingType :: ReadingType where
  "exampleReadingType =
    \<lparr>rt_id = Some ''rt1'', accumulationBehaviour = None,
     rt_commodity = Some \<lparr>code = Num 1, description = ''Electricity''\<rparr>,
     rt_currency = None, dataQualifier = None, flowDirection = None,
     intervalLength = Some (Num 900), rt_kind = None, phase = None,
     powerOfTenMultiplier = Num 0, timeAttribute = None,
     rt_uom = Some \<lparr>code = Num 72, description = ''Wh''\<rparr>\<rparr>"

definition ordinaryReading :: IntervalReading where
  "ordinaryReading =
    \<lparr>ir_cost = Some (Num 256347),
     timePeriod = Some \<lparr>iv_duration = Some (Num 900), iv_start = Some (Num 1609459200)\<rparr>,
     ir_value = Some (Num 1500), qualityFlags = None\<rparr>"

definition zeroReading :: IntervalReading where
  "zeroReading =
    \<lparr>ir_cost = Some (Num 0),
     timePeriod = Some \<lparr>iv_duration = Some (Num 900), iv_start = Some (Num 1609460100)\<rparr>,
     ir_value = Some (Num 0), qualityFlags = None\<rparr>"

definition emptyReading :: IntervalReading where
  "emptyReading = \<lparr>ir_cost = None, timePeriod = None, ir_value = None, qualityFlags = None\<rparr>"

definition earlyReading :: IntervalReading where
  "earlyReading =
    \<lparr>ir_cost = None,
     timePeriod = Some \<lparr>iv_duration = Some (Num 900), iv_start = Some (Num (- 900))\<rparr>,
     ir_value = Some (Num 7), qualityFlags = None\<rparr>"

definition exampleBlock :: IntervalBlock where
  "exampleBlock =
    \<lparr>ib_id = Some ''ib1'',
     interval = Some \<lparr>iv_duration = Some (Num 86400), iv_start = Some (Num 1609459200)\<rparr>,
     intervalReadings = [ordinaryReading, zeroReading, emptyReading, earlyReading],
     ib_links = []\<rparr>"

definition exampleMetadata :: Metadata where
  "exampleMetadata =
    \<lparr>feedId = Some ''feed1'', feedTitle = Some ''Green Button Usage Feed'',
     updated = Some ''2021-01-02T00:00:00Z'', totalEntries = 4\<rparr>"

definition exampleParsed :: ParsedData where
  "exampleParsed =
    \<lparr>metadata = exampleMetadata,
     usagePoints = [(Some ''up1'', exampleUsagePoint)],
     meterReadings =
       [(Some ''mr1'',
         \<lparr>mr_id = Some ''mr1'',
          mr_links = [(''related'', [''/UsagePoint/1/MeterReading/1/IntervalBlock'',
                                     ''/ReadingType/1''])]\<rparr>)],
     intervalBlocks = [(Some ''ib1'', exampleBlock)],
     readingTypes = [(Some ''rt1'', exampleReadingType)],
     localTimeParameters = [], usageSummaries = [],
     relationships =
       \<lparr>usagePointToMeterReadings = [(Some ''up1'', [Some ''mr1''])],
        meterReadingToIntervalBlocks = [(Some ''mr1'', [Some ''ib1''])],
        meterReadingToReadingTypes = [(Some ''mr1'', [Some ''rt1''])]\<rparr>\<rparr>"

definition untypedParsed :: ParsedData where
  "untypedParsed =
    \<lparr>metadata = exampleMetadata,
     usagePoints = [(Some ''up1'', exampleUsagePoint)],
     meterReadings =
       [(Some ''mr1'',
         \<lparr>mr_id = Some ''mr1'',
          mr_links = [(''related'', [''/UsagePoint/1/MeterReading/1/IntervalBlock''])]\<rparr>)],
     intervalBlocks = [(Some ''ib1'', exampleBlock)],
     readingTypes = [(Some ''rt1'', exampleReadingType)],
     localTimeParameters = [], usageSummaries = [],
     relationships =
       \<lparr>usagePointToMeterReadings = [(Some ''up1'', [Some ''mr1''])],
        meterReadingToIntervalBlocks = [(Some ''mr1'', [Some ''ib1''])],
        meterReadingToReadingTypes = []\<rparr>\<rparr>"

text \<open>What \<open>parseXML\<close> returns for \<open>twoTypesFeed\<close> and for \<open>lateFeed\<close>.\<close>

definition gasReadingType :: ReadingType where
  "gasReadingType =
    \<lparr>rt_id = Some ''rt2'', accumulationBehaviour = None,
     rt_commodity = Some \<lparr>code = Num 2, description = ''Gas''\<rparr>,
     rt_currency = None, dataQualifier = None, flowDirection = None,
     intervalLength = Some (Num 3600), rt_kind = None, phase = None,
     powerOfTenMultiplier = Num 3, timeAttribute = None,
     rt_uom = Some \<lparr>code = Num 31, description = ''J''\<rparr>\<rparr>"

definition twoTypesParsed :: ParsedData where
  "twoTypesParsed =
    exampleParsed
      \<lparr>metadata := exampleMetadata\<lparr>totalEntries := 5\<rparr>,
       readingTypes := [(Some ''rt1'', exampleReadingType), (Some ''rt2'', gasReadingType)],
       relationships :=
         \<lparr>usagePointToMeterReadings = [(Some ''up1'', [Some ''mr1''])],
          meterReadingToIntervalBlocks = [(Some ''mr1'', [Some ''ib1''])],
          meterReadingToReadingTypes = [(Some ''mr1'', [Some ''rt1'', Some ''rt2''])]\<rparr>\<rparr>"

definition lateReading :: IntervalReading where
  "lateReading =
    \<lparr>ir_cost = None,
     timePeriod = Some \<lparr>iv_duration = Some (Num 900), iv_start = Some (Num 8640000000001)\<rparr>,
     ir_value = Some (Num 5), qualityFlags = None\<rparr>"

definition lateParsed :: ParsedData where
  "lateParsed =
    exampleParsed
      \<lparr>intervalBlocks :=
         [(Some ''ib1'',
           \<lparr>ib_id = Some ''ib1'', interval = None, intervalReadings = [lateReading],
            ib_links = []\<rparr>)]\<rparr>"

text \<open>The rows of \<open>exampleParsed\<close> and of \<open>untypedParsed\<close>.\<close>

definition emptyRow :: FlatRow where
  "emptyRow =
    \<lparr>usage_point_id = Some ''up1'', meter_reading_id = Some ''mr1'',
     interval_block_id = Some ''ib1'', reading_type_id = Some ''rt1'',
     service_category = Some ''Electricity'', row_commodity = Some ''Electricity'',
     row_uom = Some ''Wh'', power_multiplier = Some (Num 0), start_time = None,
     row_duration = None, end_time = None, row_value = None, row_cost = None,
     quality_flags = None, interval_length = Some (Num 900), calculated_value = None,
     calculated_cost = None\<rparr>"

definition exampleRows :: "FlatRow list" where
  "exampleRows =
    [emptyRow\<lparr>start_time := Some ''2021-01-01T00:00:00.000Z'', row_duration := Some (Num 900),
       end_time := Some ''2021-01-01T00:15:00.000Z'', row_value := Some (Num 1500),
       row_cost := Some (Num 256347), calculated_value := Some (Number 1500),
       calculated_cost := Some ''2563.47''\<rparr>,
     emptyRow\<lparr>start_time := Some ''2021-01-01T00:15:00.000Z'', row_duration := Some (Num 900),
       end_time := Some ''2021-01-01T00:30:00.000Z'', row_value := Some (Num 0),
       row_cost := Some (Num 0)\<rparr>,
     emptyRow,
     emptyRow\<lparr>start_time := Some ''1969-12-31T23:45:00.000Z'', row_duration := Some (Num 900),
       row_value := Some (Num 7), calculated_value := Some (Number 7)\<rparr>]"

definition untypedRows :: "FlatRow list" where
  "untypedRows =
    map (\<lambda>row. row\<lparr>reading_type_id := None, row_commodity := None, row_uom := None,
                    power_multiplier := None, interval_length := None\<rparr>) exampleRows"

section \<open>Properties\<close>

subsection \<open>Quoting of CSV fields\<close>

lemma includesStr_single: "includesStr v [c] = (c \<in> set v)"
  by (induction v) auto

lemma startsWith_single: "startsWith v [c] = (v \<noteq> [] \<and> hd v = c)"
  by (cases v) auto

lemma endsWith_single: "endsWith v [c] = (v \<noteq> [] \<and> last v = c)"
  unfolding endsWith_def by (cases v rule: rev_cases) auto

lemma needsQuoting_iff:
  "needsQuoting v =
     (CHR '','' \<in> set v \<or> CHR 0x22 \<in> set v \<or> CHR 0x0D \<in> set v \<or> CHR 0x0A \<in> set v \<or>
      (v \<noteq> [] \<and> (hd v = CHR '' '' \<or> last v = CHR '' '')))"
  unfolding needsQuoting_def includesStr_single startsWith_single endsWith_single by blast

lemma quoteField_empty: "quoteField [] = []"
  by (simp add: quoteField_def needsQuoting_def endsWith_def)

text \<open>The reader consumes a quoted field up to its closing quote, and a plain field as it is.\<close>

lemma csvRun_quoted:
  "csvRun (InQuoted, fld, out) (doubleQuotes v @ CHR 0x22 # rest) =
   csvRun (QuoteSeen, fld @ v, out) rest"
  by (induction v arbitrary: fld) auto

lemma csvRun_plain:
  "CHR '','' \<notin> set v \<Longrightarrow> CHR 0x22 \<notin> set v \<Longrightarrow> CHR 0x0A \<notin> set v \<Longrightarrow> CHR 0x0D \<notin> set v \<Longrightarrow>
   csvRun (InPlain, fld, out) (v @ rest) = csvRun (InPlain, fld @ v, out) rest"
  by (induction v arbitrary: fld) auto

lemma csvRun_quoteField_end:
  "csvRun (FieldStart, [], out) (quoteField v) = Some (out @ [v])"
proof (cases "needsQuoting v")
  case True
  then show ?thesis
    using csvRun_quoted[of "[]" out v "[]"] by (simp add: quoteField_def)
next
  case False
  then have *: "CHR '','' \<notin> set v" "CHR 0x22 \<notin> set v" "CHR 0x0A \<notin> set v" "CHR 0x0D \<notin> set v"
    by (simp_all add: needsQuoting_iff)
  show ?thesis
  proof (cases v)
    case Nil
    then show ?thesis using False by (simp add: quoteField_def)
  next
    case (Cons c cs)
    with * have "csvRun (InPlain, [c], out) (cs @ []) = csvRun (InPlain, [c] @ cs, out) []"
      by (intro csvRun_plain) auto
    with Cons * False show ?thesis by (auto simp add: quoteField_def)
  qed
qed

lemma csvRun_quoteField_comma:
  "csvRun (FieldStart, [], out) (quoteField v @ CHR '','' # rest) =
   csvRun (FieldStart, [], out @ [v]) rest"
proof (cases "needsQuoting v")
  case True
  then show ?thesis
    using csvRun_quoted[of "[]" out v "CHR '','' # rest"] by (simp add: quoteField_def)
next
  case False
  then have *: "CHR '','' \<notin> set v" "CHR 0x22 \<notin> set v" "CHR 0x0A \<notin> set v" "CHR 0x0D \<notin> set v"
    by (simp_all add: needsQuoting_iff)
  show ?thesis
  proof (cases v)
    case Nil
    then show ?thesis using False by (simp add: quoteField_def)
  next
    case (Cons c cs)
    with * have "csvRun (InPlain, [c], out) (cs @ CHR '','' # rest) =
                 csvRun (InPlain, [c] @ cs, out) (CHR '','' # rest)"
      by (intro csvRun_plain) auto
    with Cons * False show ?thesis by (auto simp add: quoteField_def)
  qed
qed

lemma csvRun_join:
  "vs \<noteq> [] \<Longrightarrow> csvRun (FieldStart, [], out) (join (map quoteField vs) '','') = Some (out @ vs)"
proof (induction vs arbitrary: out)
  case Nil
  then show ?case by simp
next
  case (Cons v vs)
  show ?case
  proof (cases vs)
    case Nil
    then show ?thesis by (simp add: csvRun_quoteField_end)
  next
    case (Cons w ws)
    then have "csvRun (FieldStart, [], out @ [v]) (join (map quoteField vs) '','') =
               Some ((out @ [v]) @ vs)"
      using Cons.IH by blast
    with Cons show ?thesis by (simp add: csvRun_quoteField_comma)
  qed
qed

lemma pushLines_map:
  "pushLines toStr hs data acc = acc @ map (csvLine toStr hs) data"
  by (induction data arbitrary: acc) auto

text \<open>
  Every data line of the exporter reads back, field by field, as the stringified cells
  of its row (a \<open>null\<close> cell as the empty string).
\<close>

lemma csvLine_quoteField:
  "csvLine toStr hs row =
   join (map quoteField (map (\<lambda>h. case getProp row h of None \<Rightarrow> [] | Some x \<Rightarrow> toStr x) hs)) '',''"
  unfolding csvLine_def
  by (simp add: comp_def quoteField_empty option.case_distrib[of quoteField] cong: option.case_cong)

lemma csvLine_roundtrip:
  "hs \<noteq> [] \<Longrightarrow>
   csvSplit (csvLine toStr hs row) =
   Some (map (\<lambda>h. case getProp row h of None \<Rightarrow> [] | Some x \<Rightarrow> toStr x) hs)"
  unfolding csvSplit_def csvLine_quoteField
  using csvRun_join[of "map (\<lambda>h. case getProp row h of None \<Rightarrow> [] | Some x \<Rightarrow> toStr x) hs" "[]"]
  by simp

text \<open>
  C7, as the code has it. A field is wrapped in double quotes, its double quotes doubled,
  exactly when it contains a comma, a double quote, a carriage return or a line feed, or
  starts or ends with a space character (U+0020); any other field is written as it is.
  The field \<open>a,b"c\<close> is written \<open>"a,b""c"\<close>; the RFC 4180 reader recovers every field
  from what \<open>quoteField\<close> wrote; and \<open>convertToCSV\<close> writes its cells with \<open>quoteField\<close>.
\<close>

theorem quoting_policy:
  "quoteField v =
     (if CHR '','' \<in> set v \<or> CHR 0x22 \<in> set v \<or> CHR 0x0D \<in> set v \<or> CHR 0x0A \<in> set v \<or>
         (v \<noteq> [] \<and> (hd v = CHR '' '' \<or> last v = CHR '' ''))
      then [CHR 0x22] @ doubleQuotes v @ [CHR 0x22] else v)
   \<and> quoteField (''a,b'' @ [CHR 0x22] @ ''c'') =
       [CHR 0x22] @ ''a,b'' @ [CHR 0x22, CHR 0x22] @ ''c'' @ [CHR 0x22]
   \<and> csvSplit (quoteField v) = Some [v]
   \<and> convertToCSV toStr (Some [[(h, Some x)]]) None =
       Inr (quoteField h @ [CHR 0x0A] @ quoteField (toStr x))"
proof -
  have 1: "quoteField v =
     (if CHR '','' \<in> set v \<or> CHR 0x22 \<in> set v \<or> CHR 0x0D \<in> set v \<or> CHR 0x0A \<in> set v \<or>
         (v \<noteq> [] \<and> (hd v = CHR '' '' \<or> last v = CHR '' ''))
      then [CHR 0x22] @ doubleQuotes v @ [CHR 0x22] else v)"
    unfolding quoteField_def needsQuoting_iff by simp
  have 2: "quoteField (''a,b'' @ [CHR 0x22] @ ''c'') =
       [CHR 0x22] @ ''a,b'' @ [CHR 0x22, CHR 0x22] @ ''c'' @ [CHR 0x22]"
    by (simp add: quoteField_def needsQuoting_def)
  have 3: "csvSplit (quoteField v) = Some [v]"
    unfolding csvSplit_def using csvRun_quoteField_end[of "[]" v] by simp
  have 4: "convertToCSV toStr (Some [[(h, Some x)]]) None =
       Inr (quoteField h @ [CHR 0x0A] @ quoteField (toStr x))"
    by (simp add: convertToCSV_def Object_keys_def formatCSVRow_def csvLine_def getProp_def)
  from 1 2 3 4 show ?thesis by blast
qed

text \<open>
  C7 as stated fails: a field that starts with a tab has leading white space, and the
  exporter writes it unquoted.
\<close>

theorem tab_not_quoted:
  "isWhiteSpace (hd (CHR 0x09 # ''abc'')) \<and> quoteField (CHR 0x09 # ''abc'') = CHR 0x09 # ''abc''
   \<and> quoteField (CHR 0x09 # ''abc'') \<noteq> [CHR 0x22] @ doubleQuotes (CHR 0x09 # ''abc'') @ [CHR 0x22]"
  by (simp add: quoteField_def needsQuoting_def isWhiteSpace_def endsWith_def)

subsection \<open>Empty input\<close>

text \<open>
  C8. \<open>convertToCSV\<close> throws on \<open>null\<close> and on an empty array, and on nothing else
  (it returns CSV text exactly when there is at least one row); \<open>validateData\<close> of
  \<open>null\<close> and of an empty array is invalid, with one error and all four counters zero.
\<close>

theorem empty_data_rejected:
  "convertToCSV toStr None headers = Inl (Error ''No data provided for CSV conversion'')
   \<and> convertToCSV toStr (Some []) headers = Inl (Error ''No data provided for CSV conversion'')
   \<and> isl (convertToCSV toStr data headers) = (data = None \<or> data = Some [])
   \<and> \<not> isValid (validateData toStr Falsy) \<and> errors (validateData toStr Falsy) \<noteq> []
   \<and> stats (validateData toStr Falsy) =
       \<lparr>totalRows = 0, totalColumns = 0, emptyValues = 0, nullValues = 0\<rparr>
   \<and> \<not> isValid (validateData toStr (Array [])) \<and> errors (validateData toStr (Array [])) \<noteq> []
   \<and> stats (validateData toStr (Array [])) =
       \<lparr>totalRows = 0, totalColumns = 0, emptyValues = 0, nullValues = 0\<rparr>"
proof -
  have "isl (convertToCSV toStr data headers) = (data = None \<or> data = Some [])"
    by (simp add: convertToCSV_def Let_def split: option.splits list.splits)
  then show ?thesis
    by (simp add: convertToCSV_def validateData_def initialResult_def)
qed

subsection \<open>Preview\<close>

lemma slice_take: "0 \<le> m \<Longrightarrow> slice xs 0 m = take (nat m) xs"
  by (simp add: slice_def relativeIndex_def Let_def min_def)

text \<open>
  C10. For \<open>null\<close> and for an empty array the preview is
  \<open>{headers: [], rows: [], totalRows: 0, isPreview: false}\<close>. For a non-empty array and
  a maximum number of rows \<open>maxRows\<close> (a count, so not negative; 10 when left out) the
  preview holds the first \<open>maxRows\<close> rows, so never more than \<open>maxRows\<close>. Every
  array that existed before the call, the input among them, is unchanged, and the
  preview's rows are a new array.
\<close>

theorem preview_bounded:
  assumes "generatePreview h data maxRowsArg = (p, h')"
  shows "(data = None \<or> (\<exists>a. data = Some a \<and> cells h a = []) \<longrightarrow>
            previewHeaders p = [] \<and> cells h' (previewRows p) = [] \<and>
            previewTotalRows p = 0 \<and> \<not> isPreview p)
       \<and> (\<forall>a m. data = Some a \<and> cells h a \<noteq> [] \<and>
                 m = (case maxRowsArg of None \<Rightarrow> 10 | Some k \<Rightarrow> k) \<and> 0 \<le> m \<longrightarrow>
            cells h' (previewRows p) = take (nat m) (cells h a) \<and>
            int (length (cells h' (previewRows p))) \<le> m \<and>
            previewTotalRows p = length (cells h a) \<and>
            isPreview p = (int (length (cells h a)) > m))
       \<and> (\<forall>b < used h. cells h' b = cells h b)
       \<and> used h \<le> previewRows p"
  using assms
  by (auto simp add: generatePreview_def alloc_def Let_def slice_take
      split: option.splits list.splits)

theorem preview_bounded_witness:
  "generatePreview exampleHeap (Some 0) (Some 2) =
     (\<lparr>previewHeaders = [''a''], previewRows = 1, previewTotalRows = 3, isPreview = True\<rparr>,
      exampleHeap\<lparr>cells := (cells exampleHeap)(1 := [[(''a'', Some ''1'')], [(''a'', Some ''2'')]]),
        used := 2\<rparr>)
   \<and> int (length (cells (snd (generatePreview exampleHeap (Some 0) (Some 2)))
        (previewRows (fst (generatePreview exampleHeap (Some 0) (Some 2)))))) \<le> 2
   \<and> cells (snd (generatePreview exampleHeap (Some 0) (Some 2))) 0 = cells exampleHeap 0"
proof -
  have g: "generatePreview exampleHeap (Some 0) (Some 2) =
     (\<lparr>previewHeaders = [''a''], previewRows = 1, previewTotalRows = 3, isPreview = True\<rparr>,
      exampleHeap\<lparr>cells := (cells exampleHeap)(1 := [[(''a'', Some ''1'')], [(''a'', Some ''2'')]]),
        used := 2\<rparr>)"
    by (simp add: generatePreview_def exampleHeap_def alloc_def slice_def relativeIndex_def
        Let_def Object_keys_def)
  have c: "cells exampleHeap 0 \<noteq> []" "(0::nat) < used exampleHeap"
    by (simp_all add: exampleHeap_def)
  from preview_bounded[OF g] c show ?thesis
    using g by simp
qed

subsection \<open>The loops of \<open>toFlatData\<close> perform the traversal\<close>

lemma withPrefix_withPrefix: "withPrefix a (withPrefix b r) = withPrefix (a @ b) r"
  by (cases r) auto

lemma withPrefix_Nil: "withPrefix [] r = r"
  by (cases r) auto

lemma collect_append:
  "collect (xs @ ys) = (case collect xs of Inl e \<Rightarrow> Inl e | Inr vs \<Rightarrow> withPrefix vs (collect ys))"
proof (induction xs)
  case Nil
  show ?case by (simp add: withPrefix_Nil)
next
  case (Cons x xs)
  show ?case
  proof (cases x)
    case (Inl e)
    then show ?thesis by simp
  next
    case (Inr v)
    then show ?thesis
      using Cons.IH by (cases "collect xs") (simp_all add: withPrefix_withPrefix)
  qed
qed

lemma readingLoop_collect:
  "readingLoop upId up mrId rtIds rt ibId readings acc =
   withPrefix acc (collect (map (flatRow upId up mrId rtIds rt ibId) readings))"
proof (induction readings arbitrary: acc)
  case Nil
  show ?case by simp
next
  case (Cons r rs)
  show ?case
  proof (cases "flatRow upId up mrId rtIds rt ibId r")
    case (Inl e)
    then show ?thesis by simp
  next
    case (Inr row)
    then show ?thesis
      using Cons.IH[of "acc @ [row]"] by (simp add: withPrefix_withPrefix)
  qed
qed

lemma blockLoop_collect:
  "blockLoop pd upId up mrId rtIds rt ibIds acc =
   withPrefix acc
     (collect (map flatRowOf (concat (map (blockScopes pd upId up mrId rtIds rt) ibIds))))"
proof (induction ibIds arbitrary: acc)
  case Nil
  show ?case by simp
next
  case (Cons ibId ibIds)
  show ?case
  proof (cases "mapGet (intervalBlocks pd) ibId")
    case None
    then show ?thesis using Cons.IH[of acc] by (simp add: blockScopes_def)
  next
    case (Some ib)
    have m: "map flatRowOf (blockScopes pd upId up mrId rtIds rt ibId) =
             map (flatRow upId up mrId rtIds rt ibId) (intervalReadings ib)"
      using Some by (simp add: blockScopes_def flatRowOf_def comp_def)
    show ?thesis
    proof (cases "collect (map (flatRow upId up mrId rtIds rt ibId) (intervalReadings ib))")
      case (Inl e)
      then show ?thesis using Some m by (simp add: readingLoop_collect collect_append)
    next
      case (Inr rows)
      then show ?thesis
        using Some m Cons.IH[of "acc @ rows"]
        by (simp add: readingLoop_collect collect_append withPrefix_withPrefix)
    qed
  qed
qed

lemma meterLoop_collect:
  "meterLoop pd upId up mrIds acc =
   withPrefix acc (collect (map flatRowOf (concat (map (meterScopes pd upId up) mrIds))))"
proof (induction mrIds arbitrary: acc)
  case Nil
  show ?case by simp
next
  case (Cons mrId mrIds)
  show ?case
  proof (cases "mapGet (meterReadings pd) mrId")
    case None
    then show ?thesis using Cons.IH[of acc] by (simp add: meterScopes_def)
  next
    case (Some mr)
    show ?thesis
    proof (cases "collect (map flatRowOf (meterScopes pd upId up mrId))")
      case (Inl e)
      then show ?thesis using Some
        by (simp add: blockLoop_collect collect_append meterScopes_def Let_def)
    next
      case (Inr rows)
      then show ?thesis
        using Some Cons.IH[of "acc @ rows"]
        by (simp add: blockLoop_collect collect_append withPrefix_withPrefix meterScopes_def
            Let_def)
    qed
  qed
qed

lemma pointLoop_collect:
  "pointLoop pd ups acc =
   withPrefix acc (collect (map flatRowOf (concat (map (pointScopes pd) ups))))"
proof (induction ups arbitrary: acc)
  case Nil
  show ?case by simp
next
  case (Cons p ups)
  obtain upId up where p: "p = (upId, up)" by (cases p)
  show ?case
  proof (cases "collect (map flatRowOf (pointScopes pd (upId, up)))")
    case (Inl e)
    then show ?thesis using p
      by (simp add: meterLoop_collect collect_append pointScopes_def)
  next
    case (Inr rows)
    then show ?thesis
      using p Cons.IH[of "acc @ rows"]
      by (simp add: meterLoop_collect collect_append withPrefix_withPrefix pointScopes_def)
  qed
qed

lemma getOrEmpty_relatedIds: "getOrEmpty relation k = relatedIds relation k"
  by (simp add: getOrEmpty_def relatedIds_def mapGet_def)

lemma firstReadingType_related:
  "firstReadingType pd (relatedIds (meterReadingToReadingTypes (relationships pd)) mrId) =
   firstRelatedReadingType pd mrId"
  by (simp add: firstReadingType_def firstRelatedReadingType_def mapGet_def split: list.split)

lemma reached_pointScopes: "reached pd = concat (map (pointScopes pd) (usagePoints pd))"
  unfolding reached_def pointScopes_def meterScopes_def blockScopes_def relatedIds_def
    firstRelatedReadingType_def getOrEmpty_def mapGet_def firstReadingType_def
  by (simp add: Let_def cong: option.case_cong)

lemma toFlatData_collect: "toFlatData pd = collect (map flatRowOf (reached pd))"
  unfolding toFlatData_def reached_pointScopes pointLoop_collect by (simp add: withPrefix_Nil)

lemma collect_Inr:
  "collect xs = Inr vs \<Longrightarrow> length vs = length xs \<and> (\<forall>i < length xs. xs ! i = Inr (vs ! i))"
proof (induction xs arbitrary: vs)
  case Nil
  then show ?case by simp
next
  case (Cons x xs)
  then obtain v vs' where x: "x = Inr v" and c: "collect xs = Inr vs'" and vs: "vs = v # vs'"
    by (cases x; cases "collect xs") auto
  from Cons.IH[OF c] show ?case
    using x vs by (auto simp: nth_Cons split: nat.splits)
qed

subsection \<open>Relationships\<close>

lemma mapGet_mapSet: "mapGet (mapSet k v m) k' = (if k' = k then Some v else mapGet m k')"
  by (induction m) (auto simp: mapGet_def)

lemma mapKeys_mapSet:
  "mapKeys (mapSet k v m) = (if k \<in> set (mapKeys m) then mapKeys m else mapKeys m @ [k])"
  by (induction m) (force simp: mapKeys_def)+

lemma mapGet_absent: "k \<notin> set (mapKeys m) \<Longrightarrow> mapGet m k = None"
  by (simp add: mapGet_def mapKeys_def map_of_eq_None_iff)

lemma mapGet_Cons: "mapGet ((k, v) # m) k' = (if k' = k then Some v else mapGet m k')"
  by (simp add: mapGet_def)

lemma mapGet_pushTo:
  "mapGet (pushTo src t rel) k =
   (if k = src then map_option (\<lambda>ts. ts @ [t]) (mapGet rel src) else mapGet rel k)"
  by (cases "mapGet rel src") (auto simp: pushTo_def mapGet_mapSet)

lemma mapGet_pushKeys:
  "mapGet (pushKeys src ts rel) k =
   (if k = src then map_option (\<lambda>xs. xs @ ts) (mapGet rel src) else mapGet rel k)"
proof (induction ts arbitrary: rel)
  case Nil
  show ?case by (simp add: option.map_ident)
next
  case (Cons t ts)
  show ?case
    by (simp add: Cons.IH mapGet_pushTo option.map_comp comp_def)
qed

lemma mapGet_pushKeysCreating:
  "mapGet (pushKeysCreating src ts rel) k =
   (if k = src \<and> ts \<noteq> [] then Some (getOrEmpty rel src @ ts) else mapGet rel k)"
proof (induction ts arbitrary: rel)
  case Nil
  show ?case by simp
next
  case (Cons t ts)
  have h: "mapHas rel src = (mapGet rel src \<noteq> None)"
    by (simp add: mapHas_def mapGet_def)
  show ?case
  proof (cases "mapGet rel src")
    case None
    then show ?thesis
      by (simp add: Cons.IH h mapGet_pushTo mapGet_mapSet getOrEmpty_def)
  next
    case (Some xs)
    then show ?thesis
      by (simp add: Cons.IH h mapGet_pushTo getOrEmpty_def)
  qed
qed

lemma mapGet_usagePointLoop:
  "distinct (mapKeys ups) \<Longrightarrow>
   mapGet (usagePointLoop ups mrIds rel) k =
   (case mapGet ups k of
      None \<Rightarrow> mapGet rel k
    | Some up \<Rightarrow> if linksTo (up_links up) ''MeterReading'' \<noteq> [] then Some mrIds
                 else mapGet rel k)"
proof (induction ups arbitrary: rel k)
  case Nil
  show ?case by (simp add: mapGet_def)
next
  case (Cons p ups)
  obtain upId up where p: "p = (upId, up)" by (cases p)
  from Cons.prems p have d: "distinct (mapKeys ups)" and n: "upId \<notin> set (mapKeys ups)"
    by (simp_all add: mapKeys_def)
  note g = mapGet_absent[OF n]
  show ?case
  proof (cases "k = upId")
    case True
    then show ?thesis
      using g by (simp add: p Cons.IH[OF d] mapGet_Cons mapGet_pushKeys mapGet_mapSet)
  next
    case False
    then show ?thesis
      by (simp add: p Cons.IH[OF d] mapGet_Cons mapGet_pushKeys mapGet_mapSet split: option.split)
  qed
qed

lemma mapGet_intervalBlockLoop:
  "distinct (mapKeys mrs) \<Longrightarrow>
   mapGet (intervalBlockLoop mrs ibIds rel) k =
   (case mapGet mrs k of
      None \<Rightarrow> mapGet rel k
    | Some mr \<Rightarrow> if linksTo (mr_links mr) ''IntervalBlock'' \<noteq> [] then Some ibIds
                 else mapGet rel k)"
proof (induction mrs arbitrary: rel k)
  case Nil
  show ?case by (simp add: mapGet_def)
next
  case (Cons p mrs)
  obtain mrId mr where p: "p = (mrId, mr)" by (cases p)
  from Cons.prems p have d: "distinct (mapKeys mrs)" and n: "mrId \<notin> set (mapKeys mrs)"
    by (simp_all add: mapKeys_def)
  note g = mapGet_absent[OF n]
  show ?case
  proof (cases "k = mrId")
    case True
    then show ?thesis
      using g by (simp add: p Cons.IH[OF d] mapGet_Cons mapGet_pushKeys mapGet_mapSet)
  next
    case False
    then show ?thesis
      by (simp add: p Cons.IH[OF d] mapGet_Cons mapGet_pushKeys mapGet_mapSet split: option.split)
  qed
qed

lemma mapGet_readingTypeLoop:
  "distinct (mapKeys mrs) \<Longrightarrow>
   mapGet (readingTypeLoop mrs rtIds rel) k =
   (case mapGet mrs k of
      None \<Rightarrow> mapGet rel k
    | Some mr \<Rightarrow> if linksTo (mr_links mr) ''ReadingType'' \<noteq> [] \<and> rtIds \<noteq> []
                 then Some (getOrEmpty rel k @ rtIds) else mapGet rel k)"
proof (induction mrs arbitrary: rel k)
  case Nil
  show ?case by (simp add: mapGet_def)
next
  case (Cons p mrs)
  obtain mrId mr where p: "p = (mrId, mr)" by (cases p)
  from Cons.prems p have d: "distinct (mapKeys mrs)" and n: "mrId \<notin> set (mapKeys mrs)"
    by (simp_all add: mapKeys_def)
  note g = mapGet_absent[OF n]
  show ?case
  proof (cases "k = mrId")
    case True
    then show ?thesis
      using g by (simp add: p Cons.IH[OF d] mapGet_Cons mapGet_pushKeysCreating)
  next
    case False
    then show ?thesis
      by (simp add: p Cons.IH[OF d] mapGet_Cons mapGet_pushKeysCreating getOrEmpty_def
          split: option.split)
  qed
qed

text \<open>\<open>includesStr\<close> is substring containment, and \<open>linksTo\<close> is empty or not by it.\<close>

lemma startsWith_iff: "startsWith s p = (\<exists>post. s = p @ post)"
  by (induction s p rule: startsWith.induct) auto

lemma includesStr_iff: "includesStr s sub = (\<exists>pre post. s = pre @ sub @ post)"
proof (induction s)
  case Nil
  show ?case by auto
next
  case (Cons c cs)
  show ?case
  proof
    assume "includesStr (c # cs) sub"
    then consider "startsWith (c # cs) sub" | "includesStr cs sub" by auto
    then show "\<exists>pre post. c # cs = pre @ sub @ post"
    proof cases
      case 1
      then obtain post where "c # cs = sub @ post" by (auto simp: startsWith_iff)
      then have "c # cs = [] @ sub @ post" by simp
      then show ?thesis by blast
    next
      case 2
      then obtain pre post where "cs = pre @ sub @ post" using Cons.IH by auto
      then have "c # cs = (c # pre) @ sub @ post" by simp
      then show ?thesis by blast
    qed
  next
    assume "\<exists>pre post. c # cs = pre @ sub @ post"
    then obtain pre post where e: "c # cs = pre @ sub @ post" by auto
    show "includesStr (c # cs) sub"
    proof (cases pre)
      case Nil
      with e have "startsWith (c # cs) sub" by (auto simp: startsWith_iff)
      then show ?thesis by simp
    next
      case (Cons a pre')
      with e have "cs = pre' @ sub @ post" by simp
      then have "includesStr cs sub" using Cons.IH by blast
      then show ?thesis by simp
    qed
  qed
qed

lemma linksTo_nonempty:
  "(linksTo links word \<noteq> []) =
   list_ex (\<lambda>uri. includesStr uri word)
     (case map_of links ''related'' of None \<Rightarrow> [] | Some related \<Rightarrow> related)"
  by (simp add: linksTo_def filter_empty_conv list_ex_iff)

subsection \<open>Fixed-point formatting\<close>

lemma showNat_small: "n < 10 \<Longrightarrow> showNat n = [digitChar n]"
  by (simp add: showNat.simps)

lemma showNat_step: "10 \<le> n \<Longrightarrow> showNat n = showNat (n div 10) @ [digitChar (n mod 10)]"
  by (subst showNat.simps) simp

lemma length_showNat: "0 < length (showNat n)"
  by (subst showNat.simps) simp

lemma digitChar_mod: "digitChar (n mod 10) = digitChar n"
  by (simp add: digitChar_def)

lemma showNat_hundreds:
  assumes "100 \<le> n"
  shows "showNat n = showNat (n div 100) @ [digitChar (n div 10 mod 10), digitChar (n mod 10)]"
proof -
  from assms have a: "10 \<le> n" and b: "10 \<le> n div 10" by simp_all
  have c: "n div 10 div 10 = n div 100" by (simp add: div_mult2_eq[symmetric])
  show ?thesis
    by (simp add: showNat_step[OF a] showNat_step[OF b] c)
qed

lemma toFixed2_digits:
  "toFixed 2 x =
     (if x < 0 then ''-'' else []) @ showNat (nat \<lfloor>\<bar>x\<bar> * 100 + 1 / 2\<rfloor> div 100) @ ''.'' @
     [digitChar (nat \<lfloor>\<bar>x\<bar> * 100 + 1 / 2\<rfloor> div 10 mod 10),
      digitChar (nat \<lfloor>\<bar>x\<bar> * 100 + 1 / 2\<rfloor> mod 10)]"
proof -
  define n where "n = nat \<lfloor>\<bar>x\<bar> * 100 + 1 / 2\<rfloor>"
  have n: "nat \<lfloor>\<bar>x\<bar> * 10\<^sup>2 + 1 / 2\<rfloor> = n" by (simp add: n_def)
  consider "n < 10" | "10 \<le> n" "n < 100" | "100 \<le> n" by linarith
  then have "(let m = showNat n;
                  m' = (if length m \<le> 2 then replicate (2 + 1 - length m) CHR ''0'' @ m else m)
              in take (length m' - 2) m' @ ''.'' @ drop (length m' - 2) m') =
             showNat (n div 100) @ ''.'' @ [digitChar (n div 10 mod 10), digitChar (n mod 10)]"
  proof cases
    case 1
    then show ?thesis
      by (simp add: showNat_small digitChar_mod) (simp add: digitChar_def)
  next
    case 2
    then have d: "n div 10 < 10" by simp
    from 2 show ?thesis
      by (simp add: showNat_step showNat_small[OF d] showNat_small[of 0] digitChar_mod)
         (simp add: digitChar_def)
  next
    case 3
    have l: "\<not> length (showNat n) \<le> 2"
      using length_showNat[of "n div 100"] by (simp add: showNat_hundreds[OF 3])
    show ?thesis
      using l by (simp add: Let_def) (simp add: showNat_hundreds[OF 3])
  qed
  then show ?thesis
    unfolding toFixed_def n n_def[symmetric] by (simp add: Let_def)
qed

subsection \<open>Rows of the flat table\<close>

lemma toFlatData_nth:
  assumes "toFlatData pd = Inr rows" and "i < length rows"
  shows "length rows = length (reached pd)" and "flatRowOf (reached pd ! i) = Inr (rows ! i)"
  using collect_Inr[of "map flatRowOf (reached pd)" rows] assms
  by (simp_all add: toFlatData_collect)

lemma flatRowOf_scope:
  "flatRowOf s =
   flatRow (scopeUsagePointId s) (scopeUsagePoint s) (scopeMeterReadingId s)
     (scopeReadingTypeIds s) (scopeReadingType s) (scopeIntervalBlockId s) (scopeReading s)"
  by (cases s rule: prod_cases7)
     (simp add: flatRowOf_def scopeUsagePointId_def scopeUsagePoint_def scopeMeterReadingId_def
        scopeReadingTypeIds_def scopeReadingType_def scopeIntervalBlockId_def scopeReading_def)

lemma flatRow_ids:
  assumes "flatRow upId up mrId rtIds rt ibId reading = Inr row"
  shows "usage_point_id row = upId \<and> meter_reading_id row = mrId \<and> interval_block_id row = ibId
       \<and> reading_type_id row = (case rtIds of [] \<Rightarrow> None | rtId # _ \<Rightarrow> strOrNull rtId)
       \<and> row_value row = ir_value reading \<and> row_cost row = ir_cost reading
       \<and> quality_flags row = qualityFlags reading"
  using assms by (auto simp: flatRow_def split: sum.splits)

lemma flatRow_type_columns:
  assumes "flatRow upId up mrId rtIds rt ibId reading = Inr row"
  shows "power_multiplier row = map_option powerOfTenMultiplier rt
       \<and> interval_length row = (case rt of Some t \<Rightarrow> intervalLength t | None \<Rightarrow> None)
       \<and> row_commodity row =
           (case rt of Some t \<Rightarrow> map_option description (rt_commodity t) | None \<Rightarrow> None)
       \<and> row_uom row = (case rt of Some t \<Rightarrow> map_option description (rt_uom t) | None \<Rightarrow> None)"
  using assms by (auto simp: flatRow_def split: sum.splits option.splits)

lemma flatRow_derived:
  assumes "flatRow upId up mrId rtIds rt ibId reading = Inr row"
  shows "calculated_value row = calculatedValue rt reading"
    and "calculated_cost row = calculatedCost rt reading"
    and "endTime reading = Inr (end_time row)"
    and "startTime reading = Inr (start_time row)"
  using assms by (auto simp: flatRow_def split: sum.splits)

lemma flatRow_returns:
  "(\<exists>row. flatRow upId up mrId rtIds rt ibId reading = Inr row) =
   (\<not> isl (startTime reading) \<and> \<not> isl (endTime reading))"
  by (auto simp: flatRow_def split: sum.splits)

lemma formatTimestamp_returns: "(\<not> isl (formatTimestamp t)) = inDateRange t"
  by (auto simp: formatTimestamp_def inDateRange_def toISOString_def Let_def
      split: option.splits jsint.splits sum.splits prod.splits)

lemma times_returns: "(\<not> isl (startTime reading) \<and> \<not> isl (endTime reading)) = timesInRange reading"
  unfolding startTime_def endTime_def timesInRange_def
  by (auto simp: formatTimestamp_returns inDateRange_def split: option.splits jsint.splits)

lemma collect_returns: "(\<exists>vs. collect xs = Inr vs) = list_all (\<lambda>x. \<not> isl x) xs"
proof (induction xs)
  case Nil
  show ?case by simp
next
  case (Cons x xs)
  show ?case
  proof (cases x)
    case (Inl e)
    then show ?thesis by simp
  next
    case (Inr v)
    then show ?thesis
      using Cons.IH by (cases "collect xs") auto
  qed
qed

lemma toFlatData_returns:
  "(\<exists>rows. toFlatData pd = Inr rows) = list_all (\<lambda>s. timesInRange (scopeReading s)) (reached pd)"
proof -
  have "(\<not> isl (flatRowOf s)) = timesInRange (scopeReading s)" for s
    using flatRow_returns[of "scopeUsagePointId s" "scopeUsagePoint s" "scopeMeterReadingId s"
        "scopeReadingTypeIds s" "scopeReadingType s" "scopeIntervalBlockId s" "scopeReading s"]
    by (cases "flatRowOf s") (auto simp: flatRowOf_scope times_returns[symmetric])
  then show ?thesis
    by (simp add: toFlatData_collect collect_returns list_all_iff)
qed

text \<open>What the end time of a reading is, and the derived value and cost.\<close>

lemma endTime_endSeconds:
  "endTime reading =
   (case endSeconds reading of
      None \<Rightarrow> Inr None
    | Some e \<Rightarrow> (case toISOString (e * 1000) of Inl err \<Rightarrow> Inl err | Inr str \<Rightarrow> Inr (Some str)))"
  by (auto simp: endTime_def endSeconds_def formatTimestamp_def
      split: option.splits jsint.splits sum.splits)

lemma calculatedValue_present:
  "ir_value reading = Some (Num v) \<Longrightarrow> v \<noteq> 0 \<Longrightarrow> powerMultiplier rt = Num p \<Longrightarrow>
   calculatedValue rt reading = Some (Number (of_int v * 10 powi p))"
  by (simp add: calculatedValue_def)

lemma calculatedValue_null: "ir_value reading = None \<Longrightarrow> calculatedValue rt reading = None"
  by (simp add: calculatedValue_def)

lemma calculatedCost_present:
  "ir_cost reading = Some (Num c) \<Longrightarrow> c \<noteq> 0 \<Longrightarrow> powerMultiplier rt = Num p \<Longrightarrow>
   calculatedCost rt reading = Some (toFixed 2 (of_int c * 10 powi p / 100))"
  by (simp add: calculatedCost_def calculatedCostWithMultiplier_def)

lemma calculatedCost_null: "ir_cost reading = None \<Longrightarrow> calculatedCost rt reading = None"
  by (simp add: calculatedCost_def calculatedCostWithMultiplier_def)

text \<open>The reading type of a scope is the first related reading type of its meter reading.\<close>

lemma in_blockScopes:
  "s \<in> set (blockScopes pd upId up mrId rtIds rt ibId) \<Longrightarrow>
   scopeMeterReadingId s = mrId \<and> scopeReadingTypeIds s = rtIds \<and> scopeReadingType s = rt"
  by (auto simp: blockScopes_def scopeMeterReadingId_def scopeReadingTypeIds_def
      scopeReadingType_def split: option.splits)

lemma in_meterScopes:
  "s \<in> set (meterScopes pd upId up mrId) \<Longrightarrow>
   scopeMeterReadingId s = mrId \<and>
   scopeReadingTypeIds s = relatedIds (meterReadingToReadingTypes (relationships pd)) mrId \<and>
   scopeReadingType s = firstRelatedReadingType pd mrId"
  by (auto simp: meterScopes_def getOrEmpty_relatedIds firstReadingType_related
      split: option.splits dest: in_blockScopes)

lemma in_reached:
  assumes "s \<in> set (reached pd)"
  shows "scopeReadingTypeIds s =
           relatedIds (meterReadingToReadingTypes (relationships pd)) (scopeMeterReadingId s)"
    and "scopeReadingType s = firstRelatedReadingType pd (scopeMeterReadingId s)"
proof -
  from assms obtain upId up mrId where "s \<in> set (meterScopes pd upId up mrId)"
    by (auto simp: reached_pointScopes pointScopes_def)
  from in_meterScopes[OF this]
  show "scopeReadingTypeIds s =
           relatedIds (meterReadingToReadingTypes (relationships pd)) (scopeMeterReadingId s)"
    and "scopeReadingType s = firstRelatedReadingType pd (scopeMeterReadingId s)"
    by simp_all
qed

subsection \<open>The example documents\<close>

lemma floor_rat_numeral: "\<lfloor>numeral a / numeral b :: rat\<rfloor> = numeral a div numeral b"
  using floor_divide_of_int_eq[of "numeral a" "numeral b", where 'a = rat] by simp

lemma parse_exampleFeed: "parseXML exampleFeed = Inr exampleParsed"
  by code_simp

lemma parse_untypedFeed: "parseXML untypedFeed = Inr untypedParsed"
  by code_simp

lemma parse_twoTypesFeed: "parseXML twoTypesFeed = Inr twoTypesParsed"
  by code_simp

lemma parse_lateFeed: "parseXML lateFeed = Inr lateParsed"
  by code_simp

lemma iso_examples:
  "toISOString 1609459200000 = Inr ''2021-01-01T00:00:00.000Z''"
  "toISOString 1609460100000 = Inr ''2021-01-01T00:15:00.000Z''"
  "toISOString 1609461000000 = Inr ''2021-01-01T00:30:00.000Z''"
  "toISOString (- 900000) = Inr ''1969-12-31T23:45:00.000Z''"
  by code_simp+

lemma reached_example:
  "reached exampleParsed =
     map (\<lambda>reading. (Some ''up1'', exampleUsagePoint, Some ''mr1'', [Some ''rt1''],
                       Some exampleReadingType, Some ''ib1'', reading))
       [ordinaryReading, zeroReading, emptyReading, earlyReading]"
  by (simp add: reached_def exampleParsed_def relatedIds_def firstRelatedReadingType_def
      exampleBlock_def)

lemma reached_untyped:
  "reached untypedParsed =
     map (\<lambda>reading. (Some ''up1'', exampleUsagePoint, Some ''mr1'', [], None, Some ''ib1'', reading))
       [ordinaryReading, zeroReading, emptyReading, earlyReading]"
  by (simp add: reached_def untypedParsed_def relatedIds_def firstRelatedReadingType_def
      exampleBlock_def)

lemmas row_evaluation =
  flatRowOf_def flatRow_def startTime_def endTime_def formatTimestamp_def calculatedValue_def
  calculatedCost_def calculatedCostWithMultiplier_def powerMultiplier_def strOrNull_def
  exampleUsagePoint_def exampleReadingType_def emptyRow_def iso_examples exampleRows_def
  ordinaryReading_def zeroReading_def emptyReading_def earlyReading_def
  toFixed2_digits floor_rat_numeral showNat_step showNat_small digitChar_def

lemma flatten_example: "toFlatData exampleParsed = Inr exampleRows"
  unfolding toFlatData_collect reached_example by (simp add: row_evaluation)

lemma flatten_untyped: "toFlatData untypedParsed = Inr untypedRows"
  unfolding toFlatData_collect reached_untyped by (simp add: row_evaluation untypedRows_def)

subsection \<open>The traversal of \<open>toFlatData\<close>\<close>

lemma toISOString_error: "toISOString ms = Inl e \<Longrightarrow> e = RangeError ''Invalid time value''"
  by (cases "\<bar>ms\<bar> > 8640000000000000") (simp_all add: toISOString_def Let_def split: prod.splits)

lemma formatTimestamp_error:
  "formatTimestamp t = Inl e \<Longrightarrow> e = RangeError ''Invalid time value''"
  by (auto simp: formatTimestamp_def split: option.splits jsint.splits if_splits sum.splits
      dest: toISOString_error)

lemma flatRow_error:
  "flatRow upId up mrId rtIds rt ibId reading = Inl e \<Longrightarrow> e = RangeError ''Invalid time value''"
  by (auto simp: flatRow_def startTime_def endTime_def
      split: sum.splits option.splits if_splits dest: formatTimestamp_error)

lemma collect_error: "collect xs = Inl e \<Longrightarrow> Inl e \<in> set xs"
proof (induction xs)
  case Nil
  then show ?case by simp
next
  case (Cons x xs)
  then show ?case
    by (cases x; cases "collect xs") auto
qed

lemma toFlatData_error:
  assumes "toFlatData pd = Inl e"
  shows "e = RangeError ''Invalid time value''"
proof -
  from assms have "collect (map flatRowOf (reached pd)) = Inl e"
    by (simp add: toFlatData_collect)
  from collect_error[OF this] obtain s where "flatRowOf s = Inl e" by auto
  then show ?thesis
    by (simp add: flatRowOf_scope flatRow_error)
qed

lemma strOrNull_cases: "strOrNull x = (if x = Some [] then None else x)"
  by (cases x) (auto simp: strOrNull_def)

lemma flatRow_more_columns:
  assumes "flatRow upId up mrId rtIds rt ibId reading = Inr row"
  shows "service_category row = map_option sc_description (up_serviceCategory up)
       \<and> row_duration row = Option.bind (timePeriod reading) iv_duration
       \<and> reading_type_id row =
           (case rtIds of [] \<Rightarrow> None | rtId # further \<Rightarrow> if rtId = Some [] then None else rtId)
       \<and> interval_length row = Option.bind rt intervalLength
       \<and> row_commodity row = map_option description (Option.bind rt rt_commodity)
       \<and> row_uom row = map_option description (Option.bind rt rt_uom)"
  using assms
  by (cases rt; cases "timePeriod reading"; cases rtIds)
     (auto simp: flatRow_def strOrNull_cases split: sum.splits option.splits)

text \<open>
  C6, as the code has it. When every reached reading has its timestamps in the range of
  \<open>Date\<close>, \<open>toFlatData\<close> returns one row per interval reading reached by the nested
  traversal, in the order of the traversal (\<open>reached\<close>): there are as many rows as
  scopes, and the row at each position carries the identifiers, the raw value, cost,
  duration and quality flags of the scope at that position, the service category of its
  usage point, and in the columns \<open>reading_type_id\<close>, \<open>power_multiplier\<close>,
  \<open>interval_length\<close>, \<open>commodity\<close> and \<open>uom\<close> what the first related reading type
  of its meter reading gives, whatever reading types follow it. An identifier that is
  missing from its collection contributes no scope, so no row. When some reached reading
  has a timestamp outside the range of \<open>Date\<close>, \<open>toFlatData\<close> throws a RangeError
  and returns no row.
\<close>

theorem flatten_traversal:
  "(list_all (\<lambda>s. timesInRange (scopeReading s)) (reached pd) \<longrightarrow>
      (\<exists>rows. toFlatData pd = Inr rows \<and> length rows = length (reached pd) \<and>
         (\<forall>i < length rows.
            usage_point_id (rows ! i) = scopeUsagePointId (reached pd ! i) \<and>
            meter_reading_id (rows ! i) = scopeMeterReadingId (reached pd ! i) \<and>
            interval_block_id (rows ! i) = scopeIntervalBlockId (reached pd ! i) \<and>
            row_value (rows ! i) = ir_value (scopeReading (reached pd ! i)) \<and>
            row_cost (rows ! i) = ir_cost (scopeReading (reached pd ! i)) \<and>
            quality_flags (rows ! i) = qualityFlags (scopeReading (reached pd ! i)) \<and>
            row_duration (rows ! i) =
              Option.bind (timePeriod (scopeReading (reached pd ! i))) iv_duration \<and>
            service_category (rows ! i) =
              map_option sc_description (up_serviceCategory (scopeUsagePoint (reached pd ! i))) \<and>
            reading_type_id (rows ! i) =
              (case relatedIds (meterReadingToReadingTypes (relationships pd))
                      (meter_reading_id (rows ! i)) of
                 [] \<Rightarrow> None
               | rtId # further \<Rightarrow> if rtId = Some [] then None else rtId) \<and>
            power_multiplier (rows ! i) =
              map_option powerOfTenMultiplier
                (firstRelatedReadingType pd (meter_reading_id (rows ! i))) \<and>
            interval_length (rows ! i) =
              Option.bind (firstRelatedReadingType pd (meter_reading_id (rows ! i)))
                intervalLength \<and>
            row_commodity (rows ! i) =
              map_option description
                (Option.bind (firstRelatedReadingType pd (meter_reading_id (rows ! i)))
                   rt_commodity) \<and>
            row_uom (rows ! i) =
              map_option description
                (Option.bind (firstRelatedReadingType pd (meter_reading_id (rows ! i)))
                   rt_uom))))
   \<and> (\<not> list_all (\<lambda>s. timesInRange (scopeReading s)) (reached pd) \<longrightarrow>
        toFlatData pd = Inl (RangeError ''Invalid time value''))"
proof (cases "list_all (\<lambda>s. timesInRange (scopeReading s)) (reached pd)")
  case True
  then obtain rows where r: "toFlatData pd = Inr rows"
    using toFlatData_returns[of pd] by blast
  have a: "length rows = length (reached pd)"
    using collect_Inr[of "map flatRowOf (reached pd)" rows] r by (simp add: toFlatData_collect)
  have b: "usage_point_id (rows ! i) = scopeUsagePointId (reached pd ! i) \<and>
            meter_reading_id (rows ! i) = scopeMeterReadingId (reached pd ! i) \<and>
            interval_block_id (rows ! i) = scopeIntervalBlockId (reached pd ! i) \<and>
            row_value (rows ! i) = ir_value (scopeReading (reached pd ! i)) \<and>
            row_cost (rows ! i) = ir_cost (scopeReading (reached pd ! i)) \<and>
            quality_flags (rows ! i) = qualityFlags (scopeReading (reached pd ! i)) \<and>
            row_duration (rows ! i) =
              Option.bind (timePeriod (scopeReading (reached pd ! i))) iv_duration \<and>
            service_category (rows ! i) =
              map_option sc_description (up_serviceCategory (scopeUsagePoint (reached pd ! i))) \<and>
            reading_type_id (rows ! i) =
              (case relatedIds (meterReadingToReadingTypes (relationships pd))
                      (meter_reading_id (rows ! i)) of
                 [] \<Rightarrow> None
               | rtId # further \<Rightarrow> if rtId = Some [] then None else rtId) \<and>
            power_multiplier (rows ! i) =
              map_option powerOfTenMultiplier
                (firstRelatedReadingType pd (meter_reading_id (rows ! i))) \<and>
            interval_length (rows ! i) =
              Option.bind (firstRelatedReadingType pd (meter_reading_id (rows ! i)))
                intervalLength \<and>
            row_commodity (rows ! i) =
              map_option description
                (Option.bind (firstRelatedReadingType pd (meter_reading_id (rows ! i)))
                   rt_commodity) \<and>
            row_uom (rows ! i) =
              map_option description
                (Option.bind (firstRelatedReadingType pd (meter_reading_id (rows ! i)))
                   rt_uom)"
    if i: "i < length rows" for i
  proof -
    define s where "s = reached pd ! i"
    from toFlatData_nth(2)[OF r i] have
      f: "flatRow (scopeUsagePointId s) (scopeUsagePoint s) (scopeMeterReadingId s)
            (scopeReadingTypeIds s) (scopeReadingType s) (scopeIntervalBlockId s)
            (scopeReading s) = Inr (rows ! i)"
      by (simp add: flatRowOf_scope s_def)
    have m: "s \<in> set (reached pd)"
      using i a by (simp add: s_def)
    note ids = flatRow_ids[OF f]
    from ids have k: "meter_reading_id (rows ! i) = scopeMeterReadingId s" by simp
    from in_reached[OF m] k have
      n: "scopeReadingTypeIds s =
            relatedIds (meterReadingToReadingTypes (relationships pd)) (meter_reading_id (rows ! i))"
      and t: "scopeReadingType s = firstRelatedReadingType pd (meter_reading_id (rows ! i))"
      by simp_all
    from ids flatRow_type_columns[OF f] flatRow_more_columns[OF f]
    show ?thesis
      unfolding s_def[symmetric] n t by simp
  qed
  from True r a b show ?thesis by auto
next
  case False
  then have "\<not> (\<exists>rows. toFlatData pd = Inr rows)"
    using toFlatData_returns[of pd] by blast
  then obtain e where "toFlatData pd = Inl e"
    by (cases "toFlatData pd") auto
  then have "toFlatData pd = Inl (RangeError ''Invalid time value'')"
    using toFlatData_error by blast
  with False show ?thesis by simp
qed

text \<open>
  The meter reading of \<open>twoTypesParsed\<close> is related to the reading types \<open>rt1\<close>
  (electricity, multiplier 0) and \<open>rt2\<close> (gas, multiplier 3), in that order: the four
  rows carry the first one and nothing of the second.
\<close>

lemma reached_twoTypes:
  "reached twoTypesParsed =
     map (\<lambda>reading. (Some ''up1'', exampleUsagePoint, Some ''mr1'', [Some ''rt1'', Some ''rt2''],
                       Some exampleReadingType, Some ''ib1'', reading))
       [ordinaryReading, zeroReading, emptyReading, earlyReading]"
  by (simp add: reached_def twoTypesParsed_def exampleParsed_def relatedIds_def
      firstRelatedReadingType_def exampleBlock_def)

lemma flatten_twoTypes: "toFlatData twoTypesParsed = Inr exampleRows"
  unfolding toFlatData_collect reached_twoTypes by (simp add: row_evaluation)

theorem flatten_traversal_witness:
  "parseXML twoTypesFeed = Inr twoTypesParsed
   \<and> list_all (\<lambda>s. timesInRange (scopeReading s)) (reached twoTypesParsed)
   \<and> toFlatData twoTypesParsed = Inr exampleRows
   \<and> length exampleRows = length (reached twoTypesParsed) \<and> length exampleRows = 4
   \<and> relatedIds (meterReadingToReadingTypes (relationships twoTypesParsed)) (Some ''mr1'') =
       [Some ''rt1'', Some ''rt2'']
   \<and> firstRelatedReadingType twoTypesParsed (Some ''mr1'') = Some exampleReadingType
   \<and> map_of (readingTypes twoTypesParsed) (Some ''rt2'') = Some gasReadingType
   \<and> map reading_type_id exampleRows = replicate 4 (Some ''rt1'')
   \<and> map row_commodity exampleRows = replicate 4 (Some ''Electricity'')
   \<and> map power_multiplier exampleRows = replicate 4 (Some (Num 0))
   \<and> row_commodity (exampleRows ! 3) =
       map_option description
         (Option.bind (firstRelatedReadingType twoTypesParsed (meter_reading_id (exampleRows ! 3)))
            rt_commodity)
   \<and> row_value (exampleRows ! 3) = ir_value (scopeReading (reached twoTypesParsed ! 3))"
proof -
  have t: "list_all (\<lambda>s. timesInRange (scopeReading s)) (reached twoTypesParsed)"
    by (simp add: reached_twoTypes scopeReading_def timesInRange_def ordinaryReading_def
        zeroReading_def emptyReading_def earlyReading_def)
  have l: "length exampleRows = 4" by (simp add: exampleRows_def)
  from flatten_traversal[of twoTypesParsed] t flatten_twoTypes l
  have a: "length exampleRows = length (reached twoTypesParsed)"
    and b: "row_commodity (exampleRows ! 3) =
       map_option description
         (Option.bind (firstRelatedReadingType twoTypesParsed (meter_reading_id (exampleRows ! 3)))
            rt_commodity)"
    and c: "row_value (exampleRows ! 3) = ir_value (scopeReading (reached twoTypesParsed ! 3))"
    by auto
  have d: "relatedIds (meterReadingToReadingTypes (relationships twoTypesParsed)) (Some ''mr1'') =
       [Some ''rt1'', Some ''rt2'']"
    "firstRelatedReadingType twoTypesParsed (Some ''mr1'') = Some exampleReadingType"
    "map_of (readingTypes twoTypesParsed) (Some ''rt2'') = Some gasReadingType"
    by (simp_all add: twoTypesParsed_def exampleParsed_def relatedIds_def
        firstRelatedReadingType_def)
  have e: "map reading_type_id exampleRows = replicate 4 (Some ''rt1'')"
    "map row_commodity exampleRows = replicate 4 (Some ''Electricity'')"
    "map power_multiplier exampleRows = replicate 4 (Some (Num 0))"
    by (simp_all add: exampleRows_def emptyRow_def numeral_eq_Suc)
  from parse_twoTypesFeed t flatten_twoTypes a l d e b c show ?thesis by simp
qed

text \<open>
  C6 as stated fails: the one interval reading of \<open>lateFeed\<close> is reached by the
  traversal, it starts at second 8640000000001, one second after the last that \<open>Date\<close>
  can hold, and \<open>toFlatData\<close> throws where C6 has one row.
\<close>

theorem out_of_range_time_no_rows:
  "parseXML lateFeed = Inr lateParsed
   \<and> length (reached lateParsed) = 1
   \<and> scopeReading (reached lateParsed ! 0) = lateReading
   \<and> toFlatData lateParsed = Inl (RangeError ''Invalid time value'')"
proof -
  have r: "reached lateParsed =
     [(Some ''up1'', exampleUsagePoint, Some ''mr1'', [Some ''rt1''], Some exampleReadingType,
       Some ''ib1'', lateReading)]"
    by (simp add: reached_def lateParsed_def exampleParsed_def relatedIds_def
        firstRelatedReadingType_def)
  have f: "toFlatData lateParsed = Inl (RangeError ''Invalid time value'')"
    unfolding toFlatData_collect r
    by (simp add: flatRowOf_def flatRow_def startTime_def formatTimestamp_def toISOString_def
        lateReading_def)
  from parse_lateFeed r f show ?thesis by (simp add: scopeReading_def)
qed

subsection \<open>Derived value\<close>

text \<open>
  C1: \<open>calculated_value\<close> is the raw value times ten to the power of the multiplier
  whenever the raw value is present, a raw value of 0 included, and \<open>null\<close> exactly when
  the raw value is \<open>null\<close>. The code breaks this at a raw value of 0: the example feed
  holds an interval reading with \<open>value\<close> 0 (the second of its block), the parser keeps
  the 0, and the row has 0 in the column \<open>value\<close> and \<open>null\<close> in
  \<open>calculated_value\<close>, where C1 has \<open>0 * 10^0 = 0\<close>.
\<close>

theorem zero_value_not_derived:
  "parseXML exampleFeed = Inr exampleParsed
   \<and> toFlatData exampleParsed = Inr exampleRows
   \<and> ir_value (scopeReading (reached exampleParsed ! 1)) = Some (Num 0)
   \<and> row_value (exampleRows ! 1) = Some (Num 0)
   \<and> power_multiplier (exampleRows ! 1) = Some (Num 0)
   \<and> calculated_value (exampleRows ! 1) = None"
  using parse_exampleFeed flatten_example
  by (simp add: reached_example scopeReading_def zeroReading_def exampleRows_def emptyRow_def)

text \<open>
  The multiplier of a row is its column \<open>power_multiplier\<close>, or 0 when the column is
  \<open>null\<close>. For a raw value that is present and not zero, a multiplier that is not
  negative and a product of magnitude at most \<open>2^53\<close> (where the doubles of the source
  are exact) the derived value is the product with the power of ten, and for a raw value
  of \<open>null\<close> it is \<open>null\<close>.
\<close>

lemma powi_nat: "0 \<le> p \<Longrightarrow> (10::rat) powi p = 10 ^ nat p"
  by (simp add: power_int_def)

lemma row_multiplier:
  assumes "flatRow upId up mrId rtIds rt ibId reading = Inr row"
  shows "(case power_multiplier row of Some m \<Rightarrow> m | None \<Rightarrow> Num 0) = powerMultiplier rt"
  using flatRow_type_columns[OF assms] by (cases rt) (simp_all add: powerMultiplier_def)

lemma calculated_value_rule:
  assumes "toFlatData pd = Inr rows" and "i < length rows"
  shows "(row_value (rows ! i) = None \<longrightarrow> calculated_value (rows ! i) = None)
       \<and> (\<forall>v p. row_value (rows ! i) = Some (Num v) \<and> v \<noteq> 0 \<and>
                 (case power_multiplier (rows ! i) of Some m \<Rightarrow> m | None \<Rightarrow> Num 0) = Num p \<and>
                 0 \<le> p \<and> \<bar>v * 10 ^ nat p\<bar> \<le> 2 ^ 53 \<longrightarrow>
            calculated_value (rows ! i) = Some (Number (of_int (v * 10 ^ nat p))))"
proof -
  from toFlatData_nth(2)[OF assms] have
    f: "flatRow (scopeUsagePointId (reached pd ! i)) (scopeUsagePoint (reached pd ! i))
          (scopeMeterReadingId (reached pd ! i)) (scopeReadingTypeIds (reached pd ! i))
          (scopeReadingType (reached pd ! i)) (scopeIntervalBlockId (reached pd ! i))
          (scopeReading (reached pd ! i)) = Inr (rows ! i)"
    by (simp add: flatRowOf_scope)
  from flatRow_ids[OF f] have v: "row_value (rows ! i) = ir_value (scopeReading (reached pd ! i))"
    by simp
  show ?thesis
    unfolding v row_multiplier[OF f]
    by (simp add: flatRow_derived(1)[OF f] calculatedValue_present calculatedValue_null powi_nat)
qed

subsection \<open>Derived cost\<close>

lemma toFixed2_cents:
  "toFixed 2 (of_int m / 100) =
     (if m < 0 then ''-'' else []) @ showNat (nat \<bar>m\<bar> div 100) @ ''.'' @
     [digitChar (nat \<bar>m\<bar> div 10 mod 10), digitChar (nat \<bar>m\<bar> mod 10)]"
proof -
  have a: "\<bar>of_int m / 100 :: rat\<bar> * 100 + 1 / 2 = of_int \<bar>m\<bar> + 1 / 2"
    by (simp add: abs_divide)
  have b: "\<lfloor>of_int \<bar>m\<bar> + 1 / 2 :: rat\<rfloor> = \<bar>m\<bar>"
    by linarith
  have c: "(of_int m / 100 < (0::rat)) = (m < 0)"
    by (simp add: divide_less_0_iff)
  show ?thesis
    unfolding toFixed2_digits a b c by simp
qed




subsection \<open>End time\<close>

text \<open>
  What the code does with the end time. \<open>end_time\<close> is not \<open>null\<close> exactly when the
  reading's time period has a start and a duration that are both present and not zero,
  and whose sum is not zero (\<open>endSeconds\<close>); then it is \<open>toISOString\<close> of start plus
  duration, in milliseconds. Start 1609459200 with duration 900 gives the timestamp of
  1609460100.
\<close>


lemma end_time_rule:
  assumes "toFlatData pd = Inr rows" and "i < length rows"
  shows "(end_time (rows ! i) \<noteq> None) =
           (\<exists>tp s d. timePeriod (scopeReading (reached pd ! i)) = Some tp \<and>
                      iv_start tp = Some (Num s) \<and> iv_duration tp = Some (Num d) \<and>
                      s \<noteq> 0 \<and> d \<noteq> 0 \<and> s + d \<noteq> 0)
       \<and> (\<forall>tp s d. timePeriod (scopeReading (reached pd ! i)) = Some tp \<and>
                    iv_start tp = Some (Num s) \<and> iv_duration tp = Some (Num d) \<and>
                    s \<noteq> 0 \<and> d \<noteq> 0 \<and> s + d \<noteq> 0 \<longrightarrow>
            (\<exists>str. end_time (rows ! i) = Some str \<and> toISOString ((s + d) * 1000) = Inr str))
       \<and> toISOString ((1609459200 + 900) * 1000) = toISOString (1609460100 * 1000)
       \<and> toISOString (1609460100 * 1000) = Inr ''2021-01-01T00:15:00.000Z''"
proof -
  define rd where "rd = scopeReading (reached pd ! i)"
  from toFlatData_nth(2)[OF assms] have
    f: "flatRow (scopeUsagePointId (reached pd ! i)) (scopeUsagePoint (reached pd ! i))
          (scopeMeterReadingId (reached pd ! i)) (scopeReadingTypeIds (reached pd ! i))
          (scopeReadingType (reached pd ! i)) (scopeIntervalBlockId (reached pd ! i))
          rd = Inr (rows ! i)"
    by (simp add: flatRowOf_scope rd_def)
  have e: "Inr (end_time (rows ! i)) = endTime rd"
    by (rule flatRow_derived(3)[OF f, symmetric])
  have s: "(endSeconds rd = Some x) =
           (\<exists>tp s d. timePeriod rd = Some tp \<and> iv_start tp = Some (Num s) \<and>
                      iv_duration tp = Some (Num d) \<and> s \<noteq> 0 \<and> d \<noteq> 0 \<and> s + d \<noteq> 0 \<and> x = s + d)"
    for x
    by (auto simp: endSeconds_def split: option.splits jsint.splits)
  have 1: "(end_time (rows ! i) \<noteq> None) = (\<exists>x. endSeconds rd = Some x)"
    using e by (auto simp: endTime_endSeconds split: option.splits sum.splits)
  have 2: "endSeconds rd = Some x \<Longrightarrow>
           \<exists>str. end_time (rows ! i) = Some str \<and> toISOString (x * 1000) = Inr str" for x
    using e by (cases "toISOString (x * 1000)") (auto simp: endTime_endSeconds)
  have 3: "toISOString (1609460100 * 1000) = Inr ''2021-01-01T00:15:00.000Z''"
    using iso_examples(2) by simp
  show ?thesis
    unfolding rd_def[symmetric] using 1 2 3 by (auto simp: s)
qed

text \<open>The first row of the example ends a quarter of an hour after it starts.\<close>

lemma end_time_rule_example:
  "toFlatData exampleParsed = Inr exampleRows \<and> 0 < length exampleRows
   \<and> timePeriod (scopeReading (reached exampleParsed ! 0)) =
       Some \<lparr>iv_duration = Some (Num 900), iv_start = Some (Num 1609459200)\<rparr>
   \<and> end_time (exampleRows ! 0) = Some ''2021-01-01T00:15:00.000Z''
   \<and> toISOString ((1609459200 + 900) * 1000) = Inr ''2021-01-01T00:15:00.000Z''"
proof -
  have l: "0 < length exampleRows" by (simp add: exampleRows_def)
  have t: "timePeriod (scopeReading (reached exampleParsed ! 0)) =
       Some \<lparr>iv_duration = Some (Num 900), iv_start = Some (Num 1609459200)\<rparr>"
    by (simp add: reached_example scopeReading_def ordinaryReading_def)
  from end_time_rule[OF flatten_example l] t
  have "\<exists>str. end_time (exampleRows ! 0) = Some str \<and>
          toISOString ((1609459200 + 900) * 1000) = Inr str"
    and "toISOString ((1609459200 + 900) * 1000) = Inr ''2021-01-01T00:15:00.000Z''"
    by auto
  with flatten_example l t show ?thesis by auto
qed

text \<open>
  C4: \<open>end_time\<close> is not \<open>null\<close> if and only if the start and the duration of the
  reading's time period are both present, and then it is the timestamp of start plus
  duration. The code breaks this at a reading that ends at the epoch: the fourth reading
  of the example starts at -900 and lasts 900 seconds, both present; its row has a
  start time and a duration, and \<open>null\<close> as its end time, where C4 has
  \<open>1970-01-01T00:00:00.000Z\<close>, because \<open>formatTimestamp\<close> takes the timestamp 0 for
  a missing one.
\<close>

theorem end_at_epoch_is_null:
  "parseXML exampleFeed = Inr exampleParsed
   \<and> toFlatData exampleParsed = Inr exampleRows
   \<and> timePeriod (scopeReading (reached exampleParsed ! 3)) =
       Some \<lparr>iv_duration = Some (Num 900), iv_start = Some (Num (- 900))\<rparr>
   \<and> start_time (exampleRows ! 3) = Some ''1969-12-31T23:45:00.000Z''
   \<and> row_duration (exampleRows ! 3) = Some (Num 900)
   \<and> end_time (exampleRows ! 3) = None
   \<and> formatTimestamp (Some (Num (- 900 + 900))) = Inr None
   \<and> toISOString ((- 900 + 900) * 1000) = Inr ''1970-01-01T00:00:00.000Z''"
proof -
  have z: "toISOString ((- 900 + 900) * 1000) = Inr ''1970-01-01T00:00:00.000Z''"
    by code_simp
  have f: "formatTimestamp (Some (Num (- 900 + 900))) = Inr None"
    by (simp add: formatTimestamp_def)
  from parse_exampleFeed flatten_example z f show ?thesis
    by (simp add: reached_example scopeReading_def earlyReading_def exampleRows_def emptyRow_def)
qed

subsection \<open>Rows without a reading type\<close>

text \<open>
  What the code does in a row whose meter reading has no related reading type: the
  columns \<open>reading_type_id\<close>, \<open>commodity\<close>, \<open>uom\<close>, \<open>interval_length\<close> and
  \<open>power_multiplier\<close> are \<open>null\<close>, and the derived fields are computed with
  multiplier 0: for a raw value that is present and not zero \<open>calculated_value\<close> is the
  raw value, for a raw cost that is present and not zero \<open>calculated_cost\<close> is
  \<open>(cost / 100).toFixed(2)\<close> (stated where the doubles are exact); for a raw value or
  cost of \<open>null\<close> the derived field is \<open>null\<close>.
\<close>

lemma untyped_rows:
  assumes "toFlatData pd = Inr rows" and "i < length rows"
    and "relatedIds (meterReadingToReadingTypes (relationships pd)) (meter_reading_id (rows ! i)) = []"
  shows "reading_type_id (rows ! i) = None \<and> row_commodity (rows ! i) = None
       \<and> row_uom (rows ! i) = None \<and> interval_length (rows ! i) = None
       \<and> power_multiplier (rows ! i) = None
       \<and> (row_value (rows ! i) = None \<longrightarrow> calculated_value (rows ! i) = None)
       \<and> (\<forall>v. row_value (rows ! i) = Some (Num v) \<and> v \<noteq> 0 \<and> \<bar>v\<bar> \<le> 2 ^ 53 \<longrightarrow>
              calculated_value (rows ! i) = Some (Number (of_int v)))
       \<and> (row_cost (rows ! i) = None \<longrightarrow> calculated_cost (rows ! i) = None)
       \<and> (\<forall>c. row_cost (rows ! i) = Some (Num c) \<and> c \<noteq> 0 \<and> \<bar>c\<bar> < 100 * 2 ^ 46 \<longrightarrow>
              calculated_cost (rows ! i) = Some (toFixed 2 (of_int c / 100)))"
proof -
  define s where "s = reached pd ! i"
  from toFlatData_nth[OF assms(1,2)] have
    f: "flatRow (scopeUsagePointId s) (scopeUsagePoint s) (scopeMeterReadingId s)
          (scopeReadingTypeIds s) (scopeReadingType s) (scopeIntervalBlockId s)
          (scopeReading s) = Inr (rows ! i)"
    and m: "s \<in> set (reached pd)"
    using assms(2) by (simp_all add: flatRowOf_scope s_def)
  note ids = flatRow_ids[OF f]
  from in_reached[OF m] ids assms(3) have
    n: "scopeReadingTypeIds s = []" and t: "scopeReadingType s = None"
    by (simp_all add: firstRelatedReadingType_def)
  have p: "powerMultiplier None = Num 0" by (simp add: powerMultiplier_def)
  from ids flatRow_type_columns[OF f] flatRow_derived(1,2)[OF f] n t
  show ?thesis
    by (auto simp: calculatedValue_null calculatedCost_null
        calculatedValue_present[OF _ _ p] calculatedCost_present[OF _ _ p])
qed

lemma untyped_rows_example:
  "toFlatData untypedParsed = Inr untypedRows \<and> 0 < length untypedRows
   \<and> relatedIds (meterReadingToReadingTypes (relationships untypedParsed))
       (meter_reading_id (untypedRows ! 0)) = []
   \<and> power_multiplier (untypedRows ! 0) = None
   \<and> row_value (untypedRows ! 0) = Some (Num 1500)
   \<and> calculated_value (untypedRows ! 0) = Some (Number 1500)
   \<and> row_cost (untypedRows ! 0) = Some (Num 256347)
   \<and> calculated_cost (untypedRows ! 0) = Some ''2563.47''"
  using flatten_untyped
  by (simp add: untypedRows_def exampleRows_def emptyRow_def untypedParsed_def relatedIds_def)

text \<open>
  C9: in a row whose meter reading has no related reading type the type columns are
  \<open>null\<close> and the derived fields are still computed, with multiplier 0:
  \<open>calculated_value\<close> is the raw value and \<open>calculated_cost\<close> the raw cost divided
  by 100. The code breaks this at a raw value and a raw cost of 0: the meter reading of
  \<open>untypedFeed\<close> has no related reading type, its second reading has value 0 and cost
  0, and the row has \<open>null\<close> in both derived fields, where C9 has the value 0 and the
  cost \<open>0.00\<close>. It is the test of C1 that takes 0 for a missing number.
\<close>

theorem untyped_zero_not_derived:
  "parseXML untypedFeed = Inr untypedParsed
   \<and> toFlatData untypedParsed = Inr untypedRows
   \<and> meter_reading_id (untypedRows ! 1) = Some ''mr1''
   \<and> relatedIds (meterReadingToReadingTypes (relationships untypedParsed)) (Some ''mr1'') = []
   \<and> reading_type_id (untypedRows ! 1) = None \<and> row_commodity (untypedRows ! 1) = None
   \<and> row_uom (untypedRows ! 1) = None \<and> interval_length (untypedRows ! 1) = None
   \<and> power_multiplier (untypedRows ! 1) = None
   \<and> row_value (untypedRows ! 1) = Some (Num 0) \<and> calculated_value (untypedRows ! 1) = None
   \<and> row_cost (untypedRows ! 1) = Some (Num 0) \<and> calculated_cost (untypedRows ! 1) = None
   \<and> toFixed 2 (of_int 0 / 100) = ''0.00''"
proof -
  have z: "toFixed 2 (of_int 0 / 100) = ''0.00''"
    unfolding toFixed2_cents by (simp add: showNat_small digitChar_def)
  from parse_untypedFeed flatten_untyped z show ?thesis
    by (simp add: untypedRows_def exampleRows_def emptyRow_def untypedParsed_def relatedIds_def)
qed

subsection \<open>Relationships by presence of a link\<close>

lemma hasRelatedLink_iff:
  "hasRelatedLink links word =
   (\<exists>related uri pre post. map_of links ''related'' = Some related \<and> uri \<in> set related \<and>
      uri = pre @ word @ post)"
  by (cases "map_of links ''related''")
     (fastforce simp: hasRelatedLink_def list_ex_iff includesStr_iff)+

text \<open>
  C2. After \<open>buildRelationships\<close> on a document whose relationships are still empty (as
  \<open>parseXML\<close> calls it): a usage point with a \<open>related\<close> link whose URI contains
  \<open>MeterReading\<close> is mapped to the ids of all meter readings of the feed, in their order,
  and a usage point without such a link has no entry; likewise a meter reading and
  \<open>IntervalBlock\<close>. A meter reading with a \<open>related\<close> link whose URI contains
  \<open>ReadingType\<close> is mapped to the ids of all reading types when there is one, and has no
  entry when the feed has no reading type or it has no such link. \<open>hasRelatedLink\<close>
  is the presence of such a link.
\<close>

theorem relationships_by_presence:
  assumes "distinct (mapKeys (usagePoints pd))" and "distinct (mapKeys (meterReadings pd))"
    and "relationships pd = emptyRelationships"
  shows "mapGet (usagePointToMeterReadings (relationships (buildRelationships pd))) upId =
           (case mapGet (usagePoints pd) upId of
              None \<Rightarrow> None
            | Some up \<Rightarrow> if hasRelatedLink (up_links up) ''MeterReading''
                         then Some (mapKeys (meterReadings pd)) else None)
       \<and> mapGet (meterReadingToIntervalBlocks (relationships (buildRelationships pd))) mrId =
           (case mapGet (meterReadings pd) mrId of
              None \<Rightarrow> None
            | Some mr \<Rightarrow> if hasRelatedLink (mr_links mr) ''IntervalBlock''
                         then Some (mapKeys (intervalBlocks pd)) else None)
       \<and> mapGet (meterReadingToReadingTypes (relationships (buildRelationships pd))) mrId =
           (case mapGet (meterReadings pd) mrId of
              None \<Rightarrow> None
            | Some mr \<Rightarrow> if hasRelatedLink (mr_links mr) ''ReadingType'' \<and> readingTypes pd \<noteq> []
                         then Some (mapKeys (readingTypes pd)) else None)
       \<and> hasRelatedLink links word =
           (\<exists>related uri pre post. map_of links ''related'' = Some related \<and> uri \<in> set related \<and>
              uri = pre @ word @ post)"
proof -
  have e: "mapGet [] k = None" for k :: ident
    by (simp add: mapGet_def)
  have l: "(linksTo ls w \<noteq> []) = hasRelatedLink ls w" for ls w
    by (simp add: linksTo_nonempty hasRelatedLink_def)
  have n: "(mapKeys (readingTypes pd) \<noteq> []) = (readingTypes pd \<noteq> [])"
    by (simp add: mapKeys_def)
  have 1: "mapGet (usagePointToMeterReadings (relationships (buildRelationships pd))) upId =
           (case mapGet (usagePoints pd) upId of
              None \<Rightarrow> None
            | Some up \<Rightarrow> if hasRelatedLink (up_links up) ''MeterReading''
                         then Some (mapKeys (meterReadings pd)) else None)"
    by (simp add: buildRelationships_def assms(3) emptyRelationships_def
        mapGet_usagePointLoop[OF assms(1)] e l split: option.split)
  have 2: "mapGet (meterReadingToIntervalBlocks (relationships (buildRelationships pd))) mrId =
           (case mapGet (meterReadings pd) mrId of
              None \<Rightarrow> None
            | Some mr \<Rightarrow> if hasRelatedLink (mr_links mr) ''IntervalBlock''
                         then Some (mapKeys (intervalBlocks pd)) else None)"
    by (simp add: buildRelationships_def assms(3) emptyRelationships_def
        mapGet_intervalBlockLoop[OF assms(2)] e l split: option.split)
  have 3: "mapGet (meterReadingToReadingTypes (relationships (buildRelationships pd))) mrId =
           (case mapGet (meterReadings pd) mrId of
              None \<Rightarrow> None
            | Some mr \<Rightarrow> if hasRelatedLink (mr_links mr) ''ReadingType'' \<and> readingTypes pd \<noteq> []
                         then Some (mapKeys (readingTypes pd)) else None)"
    by (simp add: buildRelationships_def assms(3) emptyRelationships_def
        mapGet_readingTypeLoop[OF assms(2)] e l n getOrEmpty_def split: option.split)
  from 1 2 3 hasRelatedLink_iff[of links word] show ?thesis by (intro conjI)
qed

theorem relationships_by_presence_witness:
  "distinct (mapKeys (usagePoints (untypedParsed\<lparr>relationships := emptyRelationships\<rparr>)))
   \<and> distinct (mapKeys (meterReadings (untypedParsed\<lparr>relationships := emptyRelationships\<rparr>)))
   \<and> mapGet (usagePointToMeterReadings (relationships
         (buildRelationships (untypedParsed\<lparr>relationships := emptyRelationships\<rparr>))))
       (Some ''up1'') = Some [Some ''mr1'']
   \<and> mapGet (meterReadingToIntervalBlocks (relationships
         (buildRelationships (untypedParsed\<lparr>relationships := emptyRelationships\<rparr>))))
       (Some ''mr1'') = Some [Some ''ib1'']
   \<and> mapGet (meterReadingToReadingTypes (relationships
         (buildRelationships (untypedParsed\<lparr>relationships := emptyRelationships\<rparr>))))
       (Some ''mr1'') = None"
proof -
  define pd where "pd = untypedParsed\<lparr>relationships := emptyRelationships\<rparr>"
  have d: "distinct (mapKeys (usagePoints pd))" "distinct (mapKeys (meterReadings pd))"
    and r: "relationships pd = emptyRelationships"
    by (simp_all add: pd_def untypedParsed_def mapKeys_def)
  have u: "mapGet (usagePoints pd) (Some ''up1'') = Some exampleUsagePoint"
    and m: "mapGet (meterReadings pd) (Some ''mr1'') =
            Some \<lparr>mr_id = Some ''mr1'',
                  mr_links = [(''related'', [''/UsagePoint/1/MeterReading/1/IntervalBlock''])]\<rparr>"
    and k: "mapKeys (meterReadings pd) = [Some ''mr1'']" "mapKeys (intervalBlocks pd) = [Some ''ib1'']"
    by (simp_all add: pd_def untypedParsed_def mapGet_def mapKeys_def)
  have h: "hasRelatedLink (up_links exampleUsagePoint) ''MeterReading''"
    "hasRelatedLink [(''related'', [''/UsagePoint/1/MeterReading/1/IntervalBlock''])] ''IntervalBlock''"
    "\<not> hasRelatedLink [(''related'', [''/UsagePoint/1/MeterReading/1/IntervalBlock''])] ''ReadingType''"
    by (simp_all add: hasRelatedLink_def exampleUsagePoint_def)
  from relationships_by_presence[OF d r, of "Some ''up1''" "Some ''mr1''"] u m k h d
  show ?thesis
    unfolding pd_def[symmetric] by simp
qed

subsection \<open>Classification of an entry\<close>

lemma map_mapSet:
  "map (\<lambda>(k, v). (k, f v)) (mapSet a b m) = mapSet a (f b) (map (\<lambda>(k, v). (k, f v)) m)"
  by (induction m) auto

lemma classify_cases:
  "classify content =
    (if querySelector content (selectorsOf KUsagePoint) \<noteq> None then Some KUsagePoint
     else if querySelector content (selectorsOf KMeterReading) \<noteq> None then Some KMeterReading
     else if querySelector content (selectorsOf KIntervalBlock) \<noteq> None then Some KIntervalBlock
     else if querySelector content (selectorsOf KReadingType) \<noteq> None then Some KReadingType
     else if querySelector content (selectorsOf KLocalTimeParameters) \<noteq> None
       then Some KLocalTimeParameters
     else if querySelector content (selectorsOf KUsageSummary) \<noteq> None then Some KUsageSummary
     else None)"
  by (simp add: classify_def priorityOrder_def)

text \<open>
  \<open>extractLinks\<close> throws exactly when the entry has a \<open>link\<close> element with a
  non-empty \<open>href\<close> whose \<open>rel\<close> is a name that every object inherits, and what it
  throws is the \<open>TypeError\<close> of line 171.
\<close>

lemma map_of_mapSet: "map_of (mapSet k v m) k' = (if k' = k then Some v else map_of m k')"
  by (induction m) auto

lemma addLinks_throws:
  "\<forall>r \<in> set inheritedNames. map_of links r = None \<Longrightarrow>
   isl (addLinks linkElements links) =
   (\<exists>link \<in> set linkElements. \<exists>r h. getAttribute link ''rel'' = Some r \<and>
      getAttribute link ''href'' = Some h \<and> h \<noteq> [] \<and> r \<in> set inheritedNames)"
proof (induction linkElements arbitrary: links)
  case Nil
  show ?case by simp
next
  case (Cons link linkElements)
  have n: "[] \<notin> set inheritedNames"
    by (simp add: inheritedNames_def)
  show ?case
  proof (cases "getAttribute link ''rel''")
    case None
    then show ?thesis using Cons by simp
  next
    case r: (Some r)
    show ?thesis
    proof (cases "getAttribute link ''href''")
      case None
      then show ?thesis using Cons r by simp
    next
      case h: (Some h)
      show ?thesis
      proof (cases "r \<noteq> [] \<and> h \<noteq> []")
        case False
        then show ?thesis using Cons r h n by auto
      next
        case True
        show ?thesis
        proof (cases "map_of links r")
          case None
          show ?thesis
          proof (cases "r \<in> set inheritedNames")
            case True
            then show ?thesis using r h None \<open>r \<noteq> [] \<and> h \<noteq> []\<close> by auto
          next
            case False
            have "\<forall>x \<in> set inheritedNames. map_of (links @ [(r, [h])]) x = None"
              using Cons.prems False by (auto simp: map_add_def split: option.split)
            from Cons.IH[OF this] show ?thesis
              using r h None False True by auto
          qed
        next
          case (Some hs)
          then have "r \<notin> set inheritedNames"
            using Cons.prems by auto
          moreover have "\<forall>x \<in> set inheritedNames. map_of (mapSet r (hs @ [h]) links) x = None"
            using Cons.prems \<open>r \<notin> set inheritedNames\<close> by (auto simp: map_of_mapSet)
          from Cons.IH[OF this] show ?thesis
            using r h Some True \<open>r \<notin> set inheritedNames\<close> by auto
        qed
      qed
    qed
  qed
qed

lemma addLinks_error:
  "addLinks linkElements links = Inl e \<Longrightarrow> e = TypeError ''links[rel].push is not a function''"
  by (induction linkElements arbitrary: links)
     (auto simp: Let_def split: option.splits if_splits)

lemma extractLinks_throws:
  "isl (extractLinks entry) =
   (\<exists>link \<in> set (querySelectorAll entry [''link'']). \<exists>r h. getAttribute link ''rel'' = Some r \<and>
      getAttribute link ''href'' = Some h \<and> h \<noteq> [] \<and> r \<in> set inheritedNames)"
  unfolding extractLinks_def by (rule addLinks_throws) simp

text \<open>
  What the code does with an entry. An entry without content leaves the document as it
  is. \<open>parseEntry\<close> throws, before it classifies, exactly when the entry has content
  and \<open>extractLinks\<close> throws: when one of its links has a name that every object
  inherits as its relation type. Otherwise the content is classified as the first of the
  six types, in the order of priority, whose element is found in it (\<open>classify\<close>):
  the entry is stored under its id in the collection of that type, as what the parser of
  that type makes of the first such element, and every other collection, the metadata
  and the relationships stay as they are. Content that matches none of the six leaves
  the document as it is.
\<close>

lemma parseEntry_first_match:
  "(querySelector entry [''content''] = None \<longrightarrow> parseEntry entry pd = Inr pd)
   \<and> isl (parseEntry entry pd) =
       (querySelector entry [''content''] \<noteq> None \<and>
        (\<exists>link \<in> set (querySelectorAll entry [''link'']). \<exists>r h.
           getAttribute link ''rel'' = Some r \<and> getAttribute link ''href'' = Some h \<and>
           h \<noteq> [] \<and> r \<in> set inheritedNames))
   \<and> (\<forall>content links. querySelector entry [''content''] = Some content \<and>
                       extractLinks entry = Inr links \<longrightarrow>
        (\<exists>pd'. parseEntry entry pd = Inr pd' \<and>
           (classify content = None \<longrightarrow> pd' = pd) \<and>
           (\<forall>k. classify content = Some k \<longrightarrow>
              (\<exists>e. querySelector content (selectorsOf k) = Some e \<and>
                   collection k pd' =
                     mapSet (getTextContent entry ''id'')
                       (parseAs k e (getTextContent entry ''id'') links) (collection k pd)) \<and>
              (\<forall>k'. k' \<noteq> k \<longrightarrow> collection k' pd' = collection k' pd) \<and>
              metadata pd' = metadata pd \<and> relationships pd' = relationships pd)))"
proof -
  have 1: "querySelector entry [''content''] = None \<longrightarrow> parseEntry entry pd = Inr pd"
    by (simp add: parseEntry_def)
  have 2: "isl (parseEntry entry pd) =
       (querySelector entry [''content''] \<noteq> None \<and>
        (\<exists>link \<in> set (querySelectorAll entry [''link'']). \<exists>r h.
           getAttribute link ''rel'' = Some r \<and> getAttribute link ''href'' = Some h \<and>
           h \<noteq> [] \<and> r \<in> set inheritedNames))"
  proof -
    have "isl (parseEntry entry pd) =
          (querySelector entry [''content''] \<noteq> None \<and> isl (extractLinks entry))"
      by (simp add: parseEntry_def Let_def split: option.split sum.split)
    then show ?thesis
      by (simp only: extractLinks_throws)
  qed
  have 3: "\<exists>pd'. parseEntry entry pd = Inr pd' \<and>
           (classify content = None \<longrightarrow> pd' = pd) \<and>
           (\<forall>k. classify content = Some k \<longrightarrow>
              (\<exists>e. querySelector content (selectorsOf k) = Some e \<and>
                   collection k pd' =
                     mapSet (getTextContent entry ''id'')
                       (parseAs k e (getTextContent entry ''id'') links) (collection k pd)) \<and>
              (\<forall>k'. k' \<noteq> k \<longrightarrow> collection k' pd' = collection k' pd) \<and>
              metadata pd' = metadata pd \<and> relationships pd' = relationships pd)"
    if c: "querySelector entry [''content''] = Some content" and l: "extractLinks entry = Inr links"
    for content links
  proof -
    obtain pd' where p: "parseEntry entry pd = Inr pd'"
      using c l by (simp add: parseEntry_def Let_def)
    have none: "classify content = None \<Longrightarrow> pd' = pd"
      using c l p by (auto simp: classify_cases parseEntry_def Let_def split: if_splits)
    have one: "\<exists>e. querySelector content (selectorsOf k) = Some e \<and>
                  collection k pd' =
                    mapSet (getTextContent entry ''id'')
                      (parseAs k e (getTextContent entry ''id'') links) (collection k pd)"
      if "classify content = Some k" for k
      using that c l p
      by (cases k) (auto simp: classify_cases parseEntry_def Let_def map_mapSet split: if_splits)
    have others: "collection k' pd' = collection k' pd"
      if "classify content = Some k" "k' \<noteq> k" for k k'
      using that c l p
      by (cases k; cases k') (auto simp: classify_cases parseEntry_def Let_def split: if_splits)
    have rest: "metadata pd' = metadata pd \<and> relationships pd' = relationships pd"
      using c l p by (auto simp: parseEntry_def Let_def split: option.splits)
    from p none one others rest show ?thesis by auto
  qed
  from 1 2 3 show ?thesis by blast
qed

text \<open>
  The content of \<open>mixedEntry\<close> holds a meter reading and, after it, a usage point: the
  entry is stored as a usage point (the order of priority decides, not the order in the
  document), and the meter readings stay as they are.
\<close>

lemma mixed_entry_is_usage_point:
  "querySelector mixedEntry [''content''] = Some mixedContent
   \<and> extractLinks mixedEntry = Inr []
   \<and> classify mixedContent = Some KUsagePoint
   \<and> (\<exists>pd'. parseEntry mixedEntry exampleParsed = Inr pd'
        \<and> mapKeys (collection KUsagePoint pd') = [Some ''up1'', Some ''e1'']
        \<and> collection KMeterReading pd' = collection KMeterReading exampleParsed)"
proof -
  have q: "querySelector mixedEntry [''content''] = Some mixedContent"
    by code_simp
  have c: "classify mixedContent = Some KUsagePoint"
    by code_simp
  have i: "getTextContent mixedEntry ''id'' = Some ''e1''"
    by code_simp
  have l: "extractLinks mixedEntry = Inr []"
    by code_simp
  have k: "mapKeys (collection KUsagePoint exampleParsed) = [Some ''up1'']"
    by (simp add: exampleParsed_def mapKeys_def)
  from parseEntry_first_match[of mixedEntry exampleParsed] q c l
  obtain pd' e where p: "parseEntry mixedEntry exampleParsed = Inr pd'"
    and "collection KUsagePoint pd' =
       mapSet (getTextContent mixedEntry ''id'')
         (parseAs KUsagePoint e (getTextContent mixedEntry ''id'') [])
         (collection KUsagePoint exampleParsed)"
    and o: "collection KMeterReading pd' = collection KMeterReading exampleParsed"
    by auto
  then have "mapKeys (collection KUsagePoint pd') = [Some ''up1'', Some ''e1'']"
    using i k by (simp add: mapKeys_mapSet)
  with q c l p o show ?thesis by simp
qed

text \<open>
  C5: every entry with content is stored under the first of the six types, in the order
  of priority, whose element is found in its content, and under no other; content that
  matches none of the six is stored nowhere. The code breaks this at an entry with a
  link whose relation type is a name that every object inherits: the content of
  \<open>inheritedRelEntry\<close> holds a usage point, so C5 has the entry stored as a usage
  point; \<open>extractLinks\<close> throws at the link with \<open>rel="constructor"\<close>,
  \<open>parseEntry\<close> stores the entry nowhere, whatever the document so far, and
  \<open>parseXML\<close> fails for the whole feed.
\<close>

theorem inherited_rel_not_classified:
  "querySelector inheritedRelEntry [''content''] =
     Some (Element ''content'' [] [Element ''UsagePoint'' [] []])
   \<and> classify (Element ''content'' [] [Element ''UsagePoint'' [] []]) = Some KUsagePoint
   \<and> extractLinks inheritedRelEntry = Inl (TypeError ''links[rel].push is not a function'')
   \<and> (\<forall>pd. parseEntry inheritedRelEntry pd =
               Inl (TypeError ''links[rel].push is not a function''))
   \<and> parseXML (feedOf [inheritedRelEntry]) =
       Inl (Error ''Failed to parse Green Button XML: links[rel].push is not a function'')"
proof -
  have q: "querySelector inheritedRelEntry [''content''] =
     Some (Element ''content'' [] [Element ''UsagePoint'' [] []])"
    by code_simp
  have c: "classify (Element ''content'' [] [Element ''UsagePoint'' [] []]) = Some KUsagePoint"
    by code_simp
  have l: "extractLinks inheritedRelEntry = Inl (TypeError ''links[rel].push is not a function'')"
    by code_simp
  have p: "parseEntry inheritedRelEntry pd = Inl (TypeError ''links[rel].push is not a function'')"
    for pd
    by (simp add: parseEntry_def q l)
  have x: "parseXML (feedOf [inheritedRelEntry]) =
       Inl (Error ''Failed to parse Green Button XML: links[rel].push is not a function'')"
    by code_simp
  from q c l p x show ?thesis by simp
qed

end
